theory Spec2Isabelle
  imports Complex_Main
begin

section \<open>Universe bulk event creator: a shallow embedding\<close>

text \<open>
  The repository is a Node.js pipeline: \<^verbatim>\<open>AirtableService\<close> (status sink),
  \<^verbatim>\<open>ValidatorService\<close>, \<^verbatim>\<open>UniverseService\<close> (record transformer and remote client)
  and \<^verbatim>\<open>BulkEventCreator\<close> (batch orchestrator). Each method that a property below
  talks about is translated into a HOL function of the same name. Exceptions are values of
  a sum type, asynchronous calls to the outside world are answered by an explicit
  \<open>world\<close> and leave an explicit trace.
\<close>

subsection \<open>JavaScript values\<close>

text \<open>
  A source record is \<^verbatim>\<open>{ airtableId: record.id, ...record.fields }\<close>: an open object whose
  fields hold scalars. A field that is absent reads as \<^verbatim>\<open>undefined\<close>. Numbers that arrive
  in a JSON payload are finite, so a numeric field is a rational; results of the runtime's
  own parsers may be \<^verbatim>\<open>NaN\<close> or infinite and have the type \<open>number\<close>. A string is the list
  of its code units, and a code unit is a \<open>char\<close>: the strings of the model are those whose
  code units all lie below 256, so that the length of the list is the \<^verbatim>\<open>length\<close> of the
  string.
\<close>

datatype jsval = JUndefined | JNull | JBool bool | JNum rat | JStr string

datatype number = Finite rat | NaN | Infinity | NegInfinity

type_synonym object = "string \<Rightarrow> jsval"

text \<open>\<^verbatim>\<open>if (v)\<close>, \<^verbatim>\<open>v && \<dots>\<close>, \<^verbatim>\<open>!v\<close>: the truthiness of a scalar.\<close>

fun truthy :: "jsval \<Rightarrow> bool" where
  "truthy JUndefined = False"
| "truthy JNull = False"
| "truthy (JBool b) = b"
| "truthy (JNum n) = (n \<noteq> 0)"
| "truthy (JStr s) = (s \<noteq> [])"

text \<open>A thrown \<^verbatim>\<open>Error\<close> object; the code only ever reads its \<^verbatim>\<open>message\<close>.\<close>

datatype error =
    Error (message: string)
  | TypeError (message: string)
  | RangeError (message: string)

text \<open>
  What the JavaScript runtime answers: number formatting (radix 10 and radix 36) and
  parsing (\<^verbatim>\<open>Number(s)\<close>, \<^verbatim>\<open>parseFloat(s)\<close>, \<^verbatim>\<open>parseInt(s)\<close>), the \<^verbatim>\<open>Date\<close> object (time
  values are milliseconds since the epoch, \<open>None\<close> is an invalid date;
  \<open>Date_new rt v\<close> is \<^verbatim>\<open>new Date(v)\<close>, \<open>Date_setHours rt t h m\<close> is the time value after
  \<^verbatim>\<open>setHours(h, m, 0, 0)\<close> in the local time zone), the clock and the random generator.
  The clock and the generator are read in sequence: \<open>Date_now rt n\<close> is the \<open>n\<close>-th
  reading.
\<close>

record runtime =
  Number_toString :: "rat \<Rightarrow> string"
  Number_toString36 :: "rat \<Rightarrow> string"
  String_toNumber :: "string \<Rightarrow> number"
  parseFloat :: "string \<Rightarrow> number"
  parseInt :: "string \<Rightarrow> number"
  Date_new :: "jsval \<Rightarrow> int option"
  Date_setHours :: "int \<Rightarrow> nat \<Rightarrow> nat \<Rightarrow> int option"
  Date_toISOString :: "int \<Rightarrow> string"
  Date_now :: "nat \<Rightarrow> int"
  Math_random :: "nat \<Rightarrow> rat"

text \<open>String conversion, as a template literal \<^verbatim>\<open>`${v}`\<close> performs it.\<close>

fun ToString :: "'a runtime_scheme \<Rightarrow> jsval \<Rightarrow> string" where
  "ToString rt JUndefined = ''undefined''"
| "ToString rt JNull = ''null''"
| "ToString rt (JBool b) = (if b then ''true'' else ''false'')"
| "ToString rt (JNum n) = Number_toString rt n"
| "ToString rt (JStr s) = s"

text \<open>\<^verbatim>\<open>s.split('T')[0]\<close>: the part of \<open>s\<close> before the first \<^verbatim>\<open>T\<close>.\<close>

definition split_T_0 :: "string \<Rightarrow> string" where
  "split_T_0 s = takeWhile (\<lambda>c. c \<noteq> CHR ''T'') s"

subsection \<open>\<^verbatim>\<open>ValidatorService\<close>\<close>

text \<open>
  \<^verbatim>\<open>String.prototype.trim\<close> removes white space and line terminators at both ends. Among
  the code units below 256 these are the tab, the line feed, the vertical tab, the form
  feed, the carriage return, the space and the no-break space \<^verbatim>\<open>U+00A0\<close>.
\<close>

definition is_white_space :: "char \<Rightarrow> bool" where
  "is_white_space c =
     (c \<in> set [CHR 0x09, CHR 0x0A, CHR 0x0B, CHR 0x0C, CHR 0x0D, CHR '' '', CHR 0xA0])"

definition js_trim :: "string \<Rightarrow> string" where
  "js_trim s = rev (dropWhile is_white_space (rev (dropWhile is_white_space s)))"

text \<open>
  \<^verbatim>\<open>eventData.field?.trim()\<close>: \<^verbatim>\<open>undefined\<close> when the field is \<^verbatim>\<open>undefined\<close> or \<^verbatim>\<open>null\<close>, the
  trimmed string when it is a string, and a \<^verbatim>\<open>TypeError\<close> otherwise (a number or a boolean
  has no \<^verbatim>\<open>trim\<close>).
\<close>

fun optional_trim :: "string \<Rightarrow> jsval \<Rightarrow> error + jsval" where
  "optional_trim field JUndefined = Inr JUndefined"
| "optional_trim field JNull = Inr JUndefined"
| "optional_trim field (JStr s) = Inr (JStr (js_trim s))"
| "optional_trim field v = Inl (TypeError (''eventData.'' @ field @ ''?.trim is not a function''))"

text \<open>
  A text field as Airtable delivers it: a string, or absent. On such a field the
  \<^verbatim>\<open>?.trim()\<close> call cannot throw.
\<close>

fun nullish_or_string :: "jsval \<Rightarrow> bool" where
  "nullish_or_string JUndefined = True"
| "nullish_or_string JNull = True"
| "nullish_or_string (JStr s) = True"
| "nullish_or_string v = False"

text \<open>
  The regular expression \<^verbatim>\<open>/^([0-1]?[0-9]|2[0-3]):[0-5][0-9]$/\<close>, matched against a whole
  string: four characters \<^verbatim>\<open>d:dd\<close> (the first digit of the hour left out), or five
  characters with the hour \<^verbatim>\<open>[0-1][0-9]\<close> or \<^verbatim>\<open>2[0-3]\<close>.
\<close>

fun timeRegex_match :: "string \<Rightarrow> bool" where
  "timeRegex_match [h, c, m1, m2] =
     (h \<in> set ''0123456789'' \<and> c = CHR '':'' \<and> m1 \<in> set ''012345'' \<and> m2 \<in> set ''0123456789'')"
| "timeRegex_match [h1, h2, c, m1, m2] =
     (((h1 \<in> set ''01'' \<and> h2 \<in> set ''0123456789'') \<or> (h1 = CHR ''2'' \<and> h2 \<in> set ''0123''))
      \<and> c = CHR '':'' \<and> m1 \<in> set ''012345'' \<and> m2 \<in> set ''0123456789'')"
| "timeRegex_match s = False"

text \<open>\<^verbatim>\<open>timeRegex.test(v)\<close> converts its argument to a string first.\<close>

definition timeRegex_test :: "'a runtime_scheme \<Rightarrow> jsval \<Rightarrow> bool" where
  "timeRegex_test rt v = timeRegex_match (ToString rt v)"

text \<open>\<^verbatim>\<open>s.split(sep)\<close> for a separator of one character.\<close>

fun js_split :: "char \<Rightarrow> string \<Rightarrow> string list" where
  "js_split sep [] = [[]]"
| "js_split sep (c # cs) =
     (if c = sep then [] # js_split sep cs
      else (case js_split sep cs of [] \<Rightarrow> [[c]] | x # xs \<Rightarrow> (c # x) # xs))"

text \<open>\<^verbatim>\<open>Number(s)\<close> on a string of decimal digits.\<close>

definition Number_of_digits :: "string \<Rightarrow> nat" where
  "Number_of_digits s = foldl (\<lambda>n c. 10 * n + (of_char c - 48)) 0 s"

text \<open>
  \<^verbatim>\<open>const [hour, min] = eventData.startTime.split(':').map(Number)\<close>. Only a string has
  \<^verbatim>\<open>split\<close>. The call is made after the regular expression has matched, so the pieces are
  two strings of digits; a missing piece would be \<^verbatim>\<open>undefined\<close>, read as \<open>0\<close> here.
\<close>

fun split_hour_min :: "string \<Rightarrow> jsval \<Rightarrow> error + nat \<times> nat" where
  "split_hour_min field (JStr s) =
     (case js_split (CHR '':'') s of
        h # m # rest \<Rightarrow> Inr (Number_of_digits h, Number_of_digits m)
      | [h] \<Rightarrow> Inr (Number_of_digits h, 0)
      | [] \<Rightarrow> Inr (0, 0))"
| "split_hour_min field v = Inl (TypeError (''eventData.'' @ field @ ''.split is not a function''))"

text \<open>
  Numeric conversion and \<^verbatim>\<open><\<close> between numbers: every comparison with \<^verbatim>\<open>NaN\<close> is false.
\<close>

fun ToNumber :: "'a runtime_scheme \<Rightarrow> jsval \<Rightarrow> number" where
  "ToNumber rt JUndefined = NaN"
| "ToNumber rt JNull = Finite 0"
| "ToNumber rt (JBool b) = Finite (if b then 1 else 0)"
| "ToNumber rt (JNum n) = Finite n"
| "ToNumber rt (JStr s) = String_toNumber rt s"

fun number_less :: "number \<Rightarrow> number \<Rightarrow> bool" where
  "number_less NaN y = False"
| "number_less x NaN = False"
| "number_less (Finite a) (Finite b) = (a < b)"
| "number_less x NegInfinity = False"
| "number_less NegInfinity y = True"
| "number_less Infinity y = False"
| "number_less x Infinity = True"

text \<open>\<^verbatim>\<open>v < c\<close> for a field \<open>v\<close> and a numeric literal \<open>c\<close>.\<close>

definition js_less :: "'a runtime_scheme \<Rightarrow> jsval \<Rightarrow> rat \<Rightarrow> bool" where
  "js_less rt v c = number_less (ToNumber rt v) (Finite c)"

text \<open>\<^verbatim>\<open>v.length\<close> of a truthy scalar: defined for a string only.\<close>

fun js_length :: "jsval \<Rightarrow> nat option" where
  "js_length (JStr s) = Some (length s)"
| "js_length v = None"

text \<open>
  Comparisons of two \<^verbatim>\<open>Date\<close> objects by their time values; an invalid date compares
  false. The duration in hours is \<^verbatim>\<open>(end - start) / (1000 * 60 * 60)\<close>.
\<close>

fun date_ge :: "int option \<Rightarrow> int option \<Rightarrow> bool" where
  "date_ge (Some a) (Some b) = (a \<ge> b)"
| "date_ge a b = False"

fun date_less :: "int option \<Rightarrow> int option \<Rightarrow> bool" where
  "date_less (Some a) (Some b) = (a < b)"
| "date_less a b = False"

fun durationHours_exceeds :: "int option \<Rightarrow> int option \<Rightarrow> rat \<Rightarrow> bool" where
  "durationHours_exceeds (Some start) (Some end) h = (of_int (end - start) / (1000 * 60 * 60) > h)"
| "durationHours_exceeds start end h = False"

text \<open>\<^verbatim>\<open>if (c) list.push(x)\<close>.\<close>

definition push_if :: "bool \<Rightarrow> 'a \<Rightarrow> 'a list \<Rightarrow> 'a list" where
  "push_if c x xs = (if c then xs @ [x] else xs)"

record validation =
  isValid :: bool
  errors :: "string list"
  warnings :: "string list"

text \<open>
  The block of \<^verbatim>\<open>validateEvent\<close> that is entered when the two dates and the two times are
  all truthy: the two format checks, then (only when both times match) the ordering check
  and the duration warning, then the warning for a start date in the past.
\<close>

definition validate_dates ::
  "'a runtime_scheme \<Rightarrow> object \<Rightarrow> string list \<Rightarrow> string list
     \<Rightarrow> error + string list \<times> string list" where
  "validate_dates rt eventData errs warns =
     (let errs = push_if (\<not> timeRegex_test rt (eventData ''startTime''))
                     ''Start time must be in HH:MM format (e.g., 19:30)'' errs;
          errs = push_if (\<not> timeRegex_test rt (eventData ''endTime''))
                     ''End time must be in HH:MM format (e.g., 22:00)'' errs;
          past = (\<lambda>warns.
                    push_if (date_less (Date_new rt (eventData ''startDate''))
                               (Date_setHours rt (Date_now rt 0) 0 0))
                      ''Event start date is in the past'' warns)
      in if timeRegex_test rt (eventData ''startTime'') \<and> timeRegex_test rt (eventData ''endTime'')
         then (case split_hour_min ''startTime'' (eventData ''startTime'') of
                 Inl e \<Rightarrow> Inl e
               | Inr (startHour, startMin) \<Rightarrow>
                  (case split_hour_min ''endTime'' (eventData ''endTime'') of
                     Inl e \<Rightarrow> Inl e
                   | Inr (endHour, endMin) \<Rightarrow>
                      (let startDateTime =
                             Option.bind (Date_new rt (eventData ''startDate''))
                               (\<lambda>t. Date_setHours rt t startHour startMin);
                           endDateTime =
                             Option.bind (Date_new rt (eventData ''endDate''))
                               (\<lambda>t. Date_setHours rt t endHour endMin);
                           errs = push_if (date_ge startDateTime endDateTime)
                              ''Event end must be after event start (supports multi-day events)''
                              errs;
                           warns = push_if (durationHours_exceeds startDateTime endDateTime 168)
                              ''Event duration is longer than 7 days'' warns
                       in Inr (errs, past warns))))
         else Inr (errs, past warns))"

text \<open>
  A comma-separated list \<^verbatim>\<open>v.split(',').map(c => c.trim())\<close> with an empty member, for a
  field that is a non-empty string.
\<close>

fun has_empty_code :: "jsval \<Rightarrow> bool" where
  "has_empty_code (JStr s) = (s \<noteq> [] \<and> [] \<in> set (map js_trim (js_split (CHR '','') s)))"
| "has_empty_code v = False"

text \<open>
  \<^verbatim>\<open>validateEvent(eventData)\<close>. The four \<^verbatim>\<open>?.trim()\<close> calls can throw and are evaluated in
  the order of the source; every check pushes its message when it fails and none ends the
  function early. The local lists \<^verbatim>\<open>errors\<close> and \<^verbatim>\<open>warnings\<close> are \<open>errs\<close> and \<open>warns\<close>.
\<close>

definition validateEvent :: "'a runtime_scheme \<Rightarrow> object \<Rightarrow> error + validation" where
  "validateEvent rt eventData =
     (case optional_trim ''title'' (eventData ''title'') of Inl e \<Rightarrow> Inl e | Inr title \<Rightarrow>
      case optional_trim ''address'' (eventData ''address'') of Inl e \<Rightarrow> Inl e | Inr address \<Rightarrow>
      case optional_trim ''venueName'' (eventData ''venueName'') of Inl e \<Rightarrow> Inl e | Inr venueName \<Rightarrow>
      case optional_trim ''cityName'' (eventData ''cityName'') of Inl e \<Rightarrow> Inl e | Inr cityName \<Rightarrow>
        (let errs = [];
             warns = [];
             errs = push_if (\<not> truthy title) ''Title is required'' errs;
             errs = push_if (\<not> truthy (eventData ''startDate'')) ''Start date is required'' errs;
             errs = push_if (\<not> truthy (eventData ''startTime'')) ''Start time is required'' errs;
             errs = push_if (\<not> truthy (eventData ''endDate'')) ''End date is required'' errs;
             errs = push_if (\<not> truthy (eventData ''endTime'')) ''End time is required'' errs;
             errs = push_if (\<not> truthy address) ''Address is required'' errs;
             errs = push_if (\<not> truthy venueName) ''Venue name is required'' errs;
             errs = push_if (\<not> truthy cityName) ''City name is required'' errs
         in case (if truthy (eventData ''startDate'') \<and> truthy (eventData ''startTime'')
                     \<and> truthy (eventData ''endDate'') \<and> truthy (eventData ''endTime'')
                  then validate_dates rt eventData errs warns
                  else Inr (errs, warns)) of
              Inl e \<Rightarrow> Inl e
            | Inr (errs, warns) \<Rightarrow>
               (let errs = push_if (truthy (eventData ''ratePrice'')
                                        \<and> js_less rt (eventData ''ratePrice'') 0)
                               ''Rate price cannot be negative'' errs;
                    errs = push_if (truthy (eventData ''capacity'')
                                        \<and> js_less rt (eventData ''capacity'') 1)
                               ''Capacity must be at least 1'' errs;
                    errs = push_if (truthy (eventData ''countryCode'')
                                        \<and> js_length (eventData ''countryCode'') \<noteq> Some 2)
                               ''Country code must be 2 characters (e.g., CA, US)'' errs;
                    errs = push_if (truthy (eventData ''dateDisplayOption'')
                                        \<and> eventData ''dateDisplayOption''
                                            \<notin> set [JStr ''FULL'', JStr ''SHORT'', JStr ''HIDDEN''])
                               ''Date display option must be FULL, SHORT, or HIDDEN'' errs;
                    errs = push_if (truthy (eventData ''privacy'')
                                        \<and> eventData ''privacy''
                                            \<notin> set [JStr ''PUBLIC'', JStr ''PRIVATE'', JStr ''UNLISTED'',
                                                    JStr ''public'', JStr ''private'', JStr ''unlisted''])
                               ''Privacy must be PUBLIC, PRIVATE, or UNLISTED (case insensitive)''
                               errs;
                    warns = push_if (has_empty_code (eventData ''tiktokPixelCodes''))
                                 ''TikTok pixel codes should not contain empty values'' warns;
                    warns = push_if (has_empty_code (eventData ''facebookPixelCodes''))
                                 ''Facebook pixel codes should not contain empty values'' warns
                in Inr \<lparr>isValid = (errs = []), errors = errs, warnings = warns\<rparr>)))"

subsection \<open>\<^verbatim>\<open>UniverseService\<close>: the record transformer\<close>

text \<open>
  The request built by \<^verbatim>\<open>transformToEventCreateInput\<close> is a nested object literal. An object
  is the list of its keys and values in insertion order, so that a key which is never
  assigned is absent from the list.
\<close>

datatype json =
    JValue jsval
  | JNumber number
  | JArray "json list"
  | JObject "(string \<times> json) list"

text \<open>Reading a property of an object: \<open>None\<close> when the key is absent.\<close>

fun js_get :: "json \<Rightarrow> string \<Rightarrow> json option" where
  "js_get (JObject props) key = map_of props key"
| "js_get v key = None"

text \<open>
  \<^verbatim>\<open>generateClientMutationId(operation, identifier = null)\<close>:
  \<^verbatim>\<open>`${operation}-${Date.now()}-${Math.random().toString(36).substring(2, 8)}${id}`\<close> with
  \<^verbatim>\<open>id = identifier ? `-${identifier}` : ''\<close>.
\<close>

definition generateClientMutationId :: "'a runtime_scheme \<Rightarrow> string \<Rightarrow> jsval \<Rightarrow> string" where
  "generateClientMutationId rt operation identifier =
     (let timestamp = Date_now rt 0;
          random = take 6 (drop 2 (Number_toString36 rt (Math_random rt 0)));
          id = (if truthy identifier then ''-'' @ ToString rt identifier else [])
      in operation @ ''-'' @ Number_toString rt (of_int timestamp) @ ''-'' @ random @ id)"

text \<open>\<^verbatim>\<open>s.split('\n\n')\<close>: the pieces of \<open>s\<close> between blank lines, found from the left.\<close>

fun split_blank_lines :: "string \<Rightarrow> string list" where
  "split_blank_lines [] = [[]]"
| "split_blank_lines [a] = [[a]]"
| "split_blank_lines (a # b # cs) =
     (if a = CHR 0x0A \<and> b = CHR 0x0A then [] # split_blank_lines cs
      else (case split_blank_lines (b # cs) of [] \<Rightarrow> [[a]] | x # xs \<Rightarrow> (a # x) # xs))"

text \<open>
  \<^verbatim>\<open>formatDescription(description)\<close>: the empty string for a falsy description; otherwise
  the paragraphs, trimmed, the empty ones dropped, each wrapped in \<^verbatim>\<open><p>\<close> with its line
  feeds replaced by \<^verbatim>\<open><br>\<close>. A truthy description that is not a string has no \<^verbatim>\<open>split\<close>.
\<close>

fun formatDescription :: "jsval \<Rightarrow> error + string" where
  "formatDescription (JStr s) =
     (if s = [] then Inr []
      else Inr (concat (map (\<lambda>paragraph.
                  ''<p>'' @ concat (map (\<lambda>c. if c = CHR 0x0A then ''<br>'' else [c]) paragraph)
                    @ ''</p>'')
                (filter (\<lambda>paragraph. length paragraph > 0)
                   (map js_trim (split_blank_lines s))))))"
| "formatDescription v =
     (if truthy v then Inl (TypeError ''description.split is not a function'') else Inr [])"

text \<open>\<^verbatim>\<open>s.padStart(5, '0')\<close>.\<close>

definition padStart_5_0 :: "string \<Rightarrow> string" where
  "padStart_5_0 s = replicate (5 - length s) (CHR ''0'') @ s"

text \<open>
  \<^verbatim>\<open>combineDateAndTime(date, time)\<close>. A string date is cut at its first \<^verbatim>\<open>T\<close>; any other
  date goes through \<^verbatim>\<open>new Date(date).toISOString()\<close>, which throws a \<^verbatim>\<open>RangeError\<close> on an
  invalid date. The time is padded on the left to five characters; only a string has
  \<^verbatim>\<open>padStart\<close>. The result is \<^verbatim>\<open>`${dateStr}T${timeStr}:00`\<close>.
\<close>

definition combineDateAndTime :: "'a runtime_scheme \<Rightarrow> jsval \<Rightarrow> jsval \<Rightarrow> error + string" where
  "combineDateAndTime rt date time =
     (case (case date of
              JStr d \<Rightarrow> Inr (split_T_0 d)
            | v \<Rightarrow> (case Date_new rt v of
                       None \<Rightarrow> Inl (RangeError ''Invalid time value'')
                     | Some t \<Rightarrow> Inr (split_T_0 (Date_toISOString rt t)))) of
        Inl e \<Rightarrow> Inl e
      | Inr dateStr \<Rightarrow>
          (case time of
             JStr t \<Rightarrow> Inr (dateStr @ ''T'' @ padStart_5_0 t @ '':00'')
           | JUndefined \<Rightarrow>
               Inl (TypeError ''Cannot read properties of undefined (reading 'padStart')'')
           | JNull \<Rightarrow> Inl (TypeError ''Cannot read properties of null (reading 'padStart')'')
           | v \<Rightarrow> Inl (TypeError ''time.padStart is not a function'')))"

text \<open>
  \<^verbatim>\<open>s.toLowerCase()\<close>. Among the code units below 256 the upper-case letters are \<^verbatim>\<open>A\<close> to
  \<^verbatim>\<open>Z\<close> and \<^verbatim>\<open>U+00C0\<close> to \<^verbatim>\<open>U+00DE\<close> without the multiplication sign \<^verbatim>\<open>U+00D7\<close>; the
  lower-case letter of each lies 32 higher.
\<close>

definition toLowerCase_char :: "char \<Rightarrow> char" where
  "toLowerCase_char c =
     (let n = (of_char c :: nat)
      in if (0x41 \<le> n \<and> n \<le> 0x5A) \<or> (0xC0 \<le> n \<and> n \<le> 0xDE \<and> n \<noteq> 0xD7)
         then char_of (n + 0x20) else c)"

definition toLowerCase :: "string \<Rightarrow> string" where
  "toLowerCase s = map toLowerCase_char s"

text \<open>
  The statements \<^verbatim>\<open>if (c) eventInput.event.key = value\<close> are run in sequence; each adds
  one key or none, and some can throw. \<open>optional_field\<close> is one such statement that cannot
  throw; \<open>in_sequence\<close> runs a list of them and stops at the first error.
\<close>

definition optional_field :: "bool \<Rightarrow> string \<Rightarrow> json \<Rightarrow> error + (string \<times> json) list" where
  "optional_field c key v = Inr (if c then [(key, v)] else [])"

fun in_sequence :: "(error + 'a list) list \<Rightarrow> error + 'a list" where
  "in_sequence [] = Inr []"
| "in_sequence (Inl e # rest) = Inl e"
| "in_sequence (Inr xs # rest) =
     (case in_sequence rest of Inl e \<Rightarrow> Inl e | Inr ys \<Rightarrow> Inr (xs @ ys))"

text \<open>
  \<^verbatim>\<open>v.split(',').map(c => c.trim())\<close> assigned to a key when \<open>v\<close> is truthy; a truthy value
  that is not a string has no \<^verbatim>\<open>split\<close>.
\<close>

fun comma_list_field :: "string \<Rightarrow> jsval \<Rightarrow> error + (string \<times> json) list" where
  "comma_list_field key (JStr s) =
     Inr (if s = [] then []
          else [(key, JArray (map (\<lambda>c. JValue (JStr (js_trim c))) (js_split (CHR '','') s)))])"
| "comma_list_field key v =
     (if truthy v then Inl (TypeError (''airtableData.'' @ key @ ''.split is not a function''))
      else Inr [])"

text \<open>
  The privacy statement: \<^verbatim>\<open>airtableData.privacy.toLowerCase()\<close>, with \<^verbatim>\<open>'private'\<close> mapped to
  \<^verbatim>\<open>'unlisted'\<close>. A truthy value that is not a string has no \<^verbatim>\<open>toLowerCase\<close>.
\<close>

fun privacy_field :: "jsval \<Rightarrow> error + (string \<times> json) list" where
  "privacy_field (JStr s) =
     Inr (if s = [] then []
          else [(''privacy'',
                 JValue (JStr (if toLowerCase s = ''private'' then ''unlisted'' else toLowerCase s)))])"
| "privacy_field v =
     (if truthy v then Inl (TypeError ''airtableData.privacy.toLowerCase is not a function'')
      else Inr [])"

text \<open>
  \<^verbatim>\<open>transformToEventCreateInput(airtableData)\<close>, block by block. The time slot: one entry
  when the two dates and the two times are all truthy; both \<^verbatim>\<open>combineDateAndTime\<close> calls can
  throw.
\<close>

definition timeSlots_entries :: "'a runtime_scheme \<Rightarrow> object \<Rightarrow> error + json list" where
  "timeSlots_entries rt airtableData =
     (if truthy (airtableData ''startDate'') \<and> truthy (airtableData ''startTime'')
         \<and> truthy (airtableData ''endDate'') \<and> truthy (airtableData ''endTime'')
      then (case combineDateAndTime rt (airtableData ''startDate'') (airtableData ''startTime'') of
              Inl e \<Rightarrow> Inl e
            | Inr startDateTime \<Rightarrow>
               (case combineDateAndTime rt (airtableData ''endDate'') (airtableData ''endTime'') of
                  Inl e \<Rightarrow> Inl e
                | Inr endDateTime \<Rightarrow>
                    Inr [JObject [(''startAt'', JValue (JStr startDateTime)),
                                  (''endAt'', JValue (JStr endDateTime))]]))
      else Inr [])"

text \<open>The ticket rate: one entry when the rate name and the rate price are both truthy.\<close>

definition rates_entries :: "'a runtime_scheme \<Rightarrow> object \<Rightarrow> json list" where
  "rates_entries rt airtableData =
     (if truthy (airtableData ''rateName'') \<and> truthy (airtableData ''ratePrice'')
      then [JObject [(''attributes'', JObject
              [(''name'', JValue (airtableData ''rateName'')),
               (''price'', JNumber (parseFloat rt (ToString rt (airtableData ''ratePrice'')))),
               (''capacity'',
                  if truthy (airtableData ''rateCapacity'')
                  then JNumber (parseInt rt (ToString rt (airtableData ''rateCapacity'')))
                  else JValue JNull),
               (''description'',
                  JValue (if truthy (airtableData ''rateDescription'')
                          then airtableData ''rateDescription'' else JStr [])),
               (''state'', JValue (JStr ''ACTIVE''))])]]
      else [])"

text \<open>
  The keys assigned after the literal, from \<^verbatim>\<open>privacy\<close> to \<^verbatim>\<open>googleAnalytics4Id\<close>, in the
  order of the source.
\<close>

definition optional_keys :: "'a runtime_scheme \<Rightarrow> object \<Rightarrow> error + (string \<times> json) list" where
  "optional_keys rt airtableData =
     in_sequence
       [privacy_field (airtableData ''privacy''),
        optional_field (airtableData ''virtual'' = JBool True) ''virtual'' (JValue (JBool True)),
        optional_field (truthy (airtableData ''venueName'')) ''venueName''
          (JValue (airtableData ''venueName'')),
        optional_field (truthy (airtableData ''region'')) ''region''
          (JValue (airtableData ''region'')),
        optional_field (airtableData ''allowWaitlist'' = JBool True) ''allowWaitlist''
          (JValue (JBool True)),
        optional_field (airtableData ''socialButtons'' = JBool True) ''socialButtons''
          (JValue (JBool True)),
        optional_field (airtableData ''hiddenDate'' = JBool True) ''hiddenDate''
          (JValue (JBool True)),
        optional_field (airtableData ''timedEntry'' = JBool True) ''timedEntry''
          (JValue (JBool True)),
        optional_field (truthy (airtableData ''maxQuantity'')) ''maxQuantity''
          (JNumber (parseInt rt (ToString rt (airtableData ''maxQuantity'')))),
        optional_field (truthy (airtableData ''transactionCurrency'')) ''transactionCurrency''
          (JValue (airtableData ''transactionCurrency'')),
        comma_list_field ''availableCountries'' (airtableData ''availableCountries''),
        comma_list_field ''tiktokPixelCodes'' (airtableData ''tiktokPixelCodes''),
        comma_list_field ''facebookPixelCodes'' (airtableData ''facebookPixelCodes''),
        optional_field (truthy (airtableData ''googleAnalytics4Id'')) ''googleAnalytics4Id''
          (JValue (airtableData ''googleAnalytics4Id''))]"

text \<open>
  The whole function: the object literal comes first (its \<^verbatim>\<open>formatDescription\<close> call can
  throw), then the time slot, the rate and the optional keys.
\<close>

definition transformToEventCreateInput :: "'a runtime_scheme \<Rightarrow> object \<Rightarrow> error + json" where
  "transformToEventCreateInput rt airtableData =
     (case formatDescription (airtableData ''description'') of
        Inl e \<Rightarrow> Inl e
      | Inr descriptionHtml \<Rightarrow>
     (case timeSlots_entries rt airtableData of
        Inl e \<Rightarrow> Inl e
      | Inr timeSlots \<Rightarrow>
     (case optional_keys rt airtableData of
        Inl e \<Rightarrow> Inl e
      | Inr optional \<Rightarrow>
          Inr (JObject
            [(''clientMutationId'',
                JValue (JStr (generateClientMutationId rt ''event-create''
                                (airtableData ''airtableId'')))),
             (''publish'', JValue (JBool (airtableData ''publish'' = JBool True))),
             (''event'', JObject
                ([(''title'', JValue (airtableData ''title'')),
                  (''descriptionHtml'', JValue (JStr descriptionHtml)),
                  (''address'', JValue (airtableData ''address'')),
                  (''latitude'',
                     JNumber (if truthy (airtableData ''latitude'')
                              then parseFloat rt (ToString rt (airtableData ''latitude''))
                              else Finite (43653226 / 1000000))),
                  (''longitude'',
                     JNumber (if truthy (airtableData ''longitude'')
                              then parseFloat rt (ToString rt (airtableData ''longitude''))
                              else Finite (- (793831843 / 10000000)))),
                  (''category'', JObject
                     [(''id'', JValue (if truthy (airtableData ''categoryId'')
                                       then airtableData ''categoryId''
                                       else JStr ''52cc8f6154c5317943000003''))]),
                  (''timeSlots'', JArray timeSlots),
                  (''rates'', JArray (rates_entries rt airtableData))]
                 @ optional))]))))"

text \<open>
  Where the transformer can throw: \<^verbatim>\<open>formatDescription\<close>, the privacy statement and the three
  comma-separated lists call a string method on a truthy field, and \<^verbatim>\<open>combineDateAndTime\<close>
  is called when the two dates and the two times are all truthy. \<open>transformable\<close> collects
  the conditions under which none of these calls throws: the five fields are falsy or a
  string, and each date can be combined with its time (the time is a string; the date is a
  string or a valid date). The six boolean option fields do not occur in it.
\<close>

fun falsy_or_string :: "jsval \<Rightarrow> bool" where
  "falsy_or_string (JStr s) = True"
| "falsy_or_string v = (\<not> truthy v)"

fun combinable :: "'a runtime_scheme \<Rightarrow> jsval \<Rightarrow> jsval \<Rightarrow> bool" where
  "combinable rt (JStr d) (JStr t) = True"
| "combinable rt date (JStr t) = (Date_new rt date \<noteq> None)"
| "combinable rt date time = False"

definition transformable :: "'a runtime_scheme \<Rightarrow> object \<Rightarrow> bool" where
  "transformable rt airtableData =
     (falsy_or_string (airtableData ''description'')
      \<and> (truthy (airtableData ''startDate'') \<and> truthy (airtableData ''startTime'')
           \<and> truthy (airtableData ''endDate'') \<and> truthy (airtableData ''endTime'')
          \<longrightarrow> combinable rt (airtableData ''startDate'') (airtableData ''startTime'')
            \<and> combinable rt (airtableData ''endDate'') (airtableData ''endTime''))
      \<and> falsy_or_string (airtableData ''privacy'')
      \<and> falsy_or_string (airtableData ''availableCountries'')
      \<and> falsy_or_string (airtableData ''tiktokPixelCodes'')
      \<and> falsy_or_string (airtableData ''facebookPixelCodes''))"

subsection \<open>The outside world, state and effects\<close>

text \<open>
  The asynchronous collaborators are answered by the world: \<open>universe_createEvent w n\<close> is
  the answer to the \<open>n\<close>-th call of \<^verbatim>\<open>this.universe.createEvent\<close> (an error when the promise
  rejects), and likewise for \<^verbatim>\<open>publishEvent\<close> and for \<^verbatim>\<open>this.table.update\<close> of the Airtable
  client (\<open>None\<close> when the promise resolves). The state counts the calls made so far and
  records every effect in order.
\<close>

record world = runtime +
  universe_createEvent :: "nat \<Rightarrow> object \<Rightarrow> error + object"
  universe_publishEvent :: "nat \<Rightarrow> jsval \<Rightarrow> error option"
  table_update :: "nat \<Rightarrow> jsval \<Rightarrow> (string \<times> jsval) list \<Rightarrow> error option"

datatype effect =
    Universe_createEvent object
  | Universe_publishEvent jsval
  | Table_update jsval "(string \<times> jsval) list"
  | Logger_info string jsval
  | Logger_success string jsval
  | Logger_warn string jsval
  | Logger_error string jsval
  | Delay int

record state =
  trace :: "effect list"
  creates :: nat
  publishes :: nat
  updates :: nat
  clock_reads :: nat

definition initial_state :: state where
  "initial_state = \<lparr>trace = [], creates = 0, publishes = 0, updates = 0, clock_reads = 0\<rparr>"

definition emit :: "effect \<Rightarrow> state \<Rightarrow> state" where
  "emit e s = s\<lparr>trace := trace s @ [e]\<rparr>"

text \<open>\<^verbatim>\<open>logger.info(message, data = null)\<close> and its siblings (console and log file).\<close>

definition logger_info :: "string \<Rightarrow> jsval \<Rightarrow> state \<Rightarrow> state" where
  "logger_info msg data s = emit (Logger_info msg data) s"

definition logger_success :: "string \<Rightarrow> jsval \<Rightarrow> state \<Rightarrow> state" where
  "logger_success msg data s = emit (Logger_success msg data) s"

definition logger_warn :: "string \<Rightarrow> jsval \<Rightarrow> state \<Rightarrow> state" where
  "logger_warn msg data s = emit (Logger_warn msg data) s"

definition logger_error :: "string \<Rightarrow> jsval \<Rightarrow> state \<Rightarrow> state" where
  "logger_error msg data s = emit (Logger_error msg data) s"

text \<open>\<^verbatim>\<open>delay(ms)\<close>: a timer of \<open>ms\<close> milliseconds.\<close>

definition delay :: "int \<Rightarrow> state \<Rightarrow> state" where
  "delay ms s = emit (Delay ms) s"

text \<open>\<^verbatim>\<open>new Date().toISOString().split('T')[0]\<close>: one reading of the clock.\<close>

definition today :: "world \<Rightarrow> state \<Rightarrow> string \<times> state" where
  "today w s =
     (split_T_0 (Date_toISOString w (Date_now w (clock_reads s))),
      s\<lparr>clock_reads := clock_reads s + 1\<rparr>)"

definition call_table_update ::
  "world \<Rightarrow> jsval \<Rightarrow> (string \<times> jsval) list \<Rightarrow> state \<Rightarrow> error option \<times> state" where
  "call_table_update w recordId updateData s =
     (table_update w (updates s) recordId updateData,
      emit (Table_update recordId updateData) (s\<lparr>updates := updates s + 1\<rparr>))"

definition call_createEvent :: "world \<Rightarrow> object \<Rightarrow> state \<Rightarrow> (error + object) \<times> state" where
  "call_createEvent w event s =
     (universe_createEvent w (creates s) event,
      emit (Universe_createEvent event) (s\<lparr>creates := creates s + 1\<rparr>))"

definition call_publishEvent :: "world \<Rightarrow> jsval \<Rightarrow> state \<Rightarrow> error option \<times> state" where
  "call_publishEvent w eventId s =
     (universe_publishEvent w (publishes s) eventId,
      emit (Universe_publishEvent eventId) (s\<lparr>publishes := publishes s + 1\<rparr>))"

subsection \<open>\<^verbatim>\<open>AirtableService\<close>: the status sink\<close>

text \<open>
  \<^verbatim>\<open>updateEventStatus(recordId, status, universeEventId = null, errorMessage = null, clientMutationId = null)\<close>.
  The three optional arguments are only tested for truthiness, where \<^verbatim>\<open>undefined\<close> and
  \<^verbatim>\<open>null\<close> agree. The \<^verbatim>\<open>catch\<close> logs and throws the error again.
\<close>

definition updateEventStatus ::
  "world \<Rightarrow> jsval \<Rightarrow> jsval \<Rightarrow> jsval \<Rightarrow> jsval \<Rightarrow> jsval \<Rightarrow> state \<Rightarrow> (error + unit) \<times> state" where
  "updateEventStatus w recordId status universeEventId errorMessage clientMutationId s =
     (let (lastUpdated, s1) = today w s;
          updateData = [(''status'', status), (''lastUpdated'', JStr lastUpdated)];
          updateData = (if truthy universeEventId
                        then updateData @ [(''universeEventId'', universeEventId)] else updateData);
          updateData = (if truthy errorMessage
                        then updateData @ [(''errorMessage'', errorMessage)] else updateData);
          updateData = (if truthy clientMutationId
                        then updateData @ [(''clientMutationId'', clientMutationId)] else updateData);
          (answer, s2) = call_table_update w recordId updateData s1
      in case answer of
           None \<Rightarrow>
             (Inr (),
              logger_info (''Updated Airtable record '' @ ToString w recordId
                             @ '' with status: '' @ ToString w status) JNull s2)
         | Some error \<Rightarrow>
             (Inl error,
              logger_error (''Failed to update Airtable record '' @ ToString w recordId @ '':'')
                (JStr (message error)) s2))"

text \<open>
  \<^verbatim>\<open>markAsCreated(recordId, universeEventId, universeUrl, clientMutationId = null)\<close>: the
  clock is read twice, for \<^verbatim>\<open>createdAt\<close> and for \<^verbatim>\<open>lastUpdated\<close>. The \<^verbatim>\<open>catch\<close> logs and
  throws the error again.
\<close>

definition markAsCreated ::
  "world \<Rightarrow> jsval \<Rightarrow> jsval \<Rightarrow> jsval \<Rightarrow> jsval \<Rightarrow> state \<Rightarrow> (error + unit) \<times> state" where
  "markAsCreated w recordId universeEventId universeUrl clientMutationId s =
     (let (createdAt, s1) = today w s;
          (lastUpdated, s2) = today w s1;
          updateData = [(''status'', JStr ''Created''),
                        (''universeEventId'', universeEventId),
                        (''universeUrl'', universeUrl),
                        (''createdAt'', JStr createdAt),
                        (''lastUpdated'', JStr lastUpdated)];
          updateData = (if truthy clientMutationId
                        then updateData @ [(''clientMutationId'', clientMutationId)] else updateData);
          (answer, s3) = call_table_update w recordId updateData s2
      in case answer of
           None \<Rightarrow> (Inr (), s3)
         | Some error \<Rightarrow>
             (Inl error,
              logger_error (''Failed to mark record '' @ ToString w recordId @ '' as created:'')
                (JStr (message error)) s3))"

text \<open>
  \<^verbatim>\<open>markAsError(recordId, errorMessage)\<close>. The \<^verbatim>\<open>try\<close> block first: the object literal
  evaluates \<^verbatim>\<open>errorMessage.substring(0, 1000)\<close>, which throws a \<^verbatim>\<open>TypeError\<close> when the
  message is not a string, then reads the clock, then awaits the update.
\<close>

definition markAsError_try :: "world \<Rightarrow> jsval \<Rightarrow> jsval \<Rightarrow> state \<Rightarrow> (error + unit) \<times> state" where
  "markAsError_try w recordId errorMessage s =
     (case errorMessage of
        JStr m \<Rightarrow>
          (let (lastUpdated, s1) = today w s;
               (answer, s2) = call_table_update w recordId
                  [(''status'', JStr ''Error''),
                   (''errorMessage'', JStr (take 1000 m)),
                   (''lastUpdated'', JStr lastUpdated)] s1
           in case answer of None \<Rightarrow> (Inr (), s2) | Some error \<Rightarrow> (Inl error, s2))
      | JUndefined \<Rightarrow>
          (Inl (TypeError ''Cannot read properties of undefined (reading 'substring')''), s)
      | JNull \<Rightarrow>
          (Inl (TypeError ''Cannot read properties of null (reading 'substring')''), s)
      | _ \<Rightarrow> (Inl (TypeError ''errorMessage.substring is not a function''), s))"

text \<open>The \<^verbatim>\<open>catch\<close> of \<^verbatim>\<open>markAsError\<close> logs the error and ends: nothing is thrown.\<close>

definition markAsError :: "world \<Rightarrow> jsval \<Rightarrow> jsval \<Rightarrow> state \<Rightarrow> (error + unit) \<times> state" where
  "markAsError w recordId errorMessage s =
     (case markAsError_try w recordId errorMessage s of
        (Inr u, s1) \<Rightarrow> (Inr u, s1)
      | (Inl error, s1) \<Rightarrow>
          (Inr (),
           logger_error (''Failed to mark record '' @ ToString w recordId @ '' as error:'')
             (JStr (message error)) s1))"

subsection \<open>\<^verbatim>\<open>BulkEventCreator\<close>: the batch orchestrator\<close>

subsubsection \<open>The orchestrator's configuration\<close>

text \<open>
  \<^verbatim>\<open>this.batchSize = parseInt(process.env.BATCH_SIZE) || 5\<close> and its two siblings are integers
  (never \<^verbatim>\<open>NaN\<close> and never \<open>0\<close> when set through the constructor, but the methods
  themselves read whatever the fields hold).
\<close>

record BulkEventCreator =
  batchSize :: int
  delayBetweenBatches :: int
  maxRetries :: int

subsection \<open>\<^verbatim>\<open>createBatches\<close>\<close>

text \<open>
  \<^verbatim>\<open>Array.prototype.slice(start, end)\<close> on integer arguments: a negative index counts from
  the end, both indices are clamped to the array, an empty range gives the empty array.
\<close>

definition js_slice :: "'a list \<Rightarrow> int \<Rightarrow> int \<Rightarrow> 'a list" where
  "js_slice xs start end =
     (let len = int (length xs);
          k = (if start < 0 then max (len + start) 0 else min start len);
          final = (if end < 0 then max (len + end) 0 else min end len)
      in take (nat (final - k)) (drop (nat k) xs))"

text \<open>
  \<^verbatim>\<open>for (let i = 0; i < events.length; i += this.batchSize) batches.push(events.slice(i, i + this.batchSize))\<close>.
  With a batch size that is not positive the loop never ends on a non-empty input; that is
  the value \<open>None\<close>.
\<close>

partial_function (option) createBatches_loop ::
  "BulkEventCreator \<Rightarrow> 'a list \<Rightarrow> int \<Rightarrow> 'a list list \<Rightarrow> 'a list list option" where
  "createBatches_loop this events i batches =
     (if i < int (length events)
      then createBatches_loop this events (i + batchSize this)
             (batches @ [js_slice events i (i + batchSize this)])
      else Some batches)"

declare createBatches_loop.simps [code]

definition createBatches :: "BulkEventCreator \<Rightarrow> 'a list \<Rightarrow> 'a list list option" where
  "createBatches this events = createBatches_loop this events 0 []"

subsubsection \<open>\<^verbatim>\<open>processEvent\<close>\<close>

text \<open>\<^verbatim>\<open>getEventUrl(eventSlug)\<close> of the \<^verbatim>\<open>UniverseService\<close>.\<close>

definition getEventUrl :: "'a runtime_scheme \<Rightarrow> jsval \<Rightarrow> string" where
  "getEventUrl rt eventSlug = ''https://www.universe.com/'' @ ToString rt eventSlug"

text \<open>
  The \<^verbatim>\<open>try\<close> block of \<^verbatim>\<open>processEvent\<close>: create; publish once when requested and not yet
  posted, with a \<^verbatim>\<open>catch\<close> of its own that only warns; compute the URL; mark the record as
  created; log. An error of \<^verbatim>\<open>createEvent\<close> or of \<^verbatim>\<open>markAsCreated\<close> leaves the block.
\<close>

definition processEvent_try :: "world \<Rightarrow> object \<Rightarrow> state \<Rightarrow> (error + object) \<times> state" where
  "processEvent_try w event s =
     (case call_createEvent w event s of
        (Inl error, s1) \<Rightarrow> (Inl error, s1)
      | (Inr universeEvent, s1) \<Rightarrow>
          (let s2 =
                 (if event ''publish'' = JBool True \<and> universeEvent ''state'' \<noteq> JStr ''POSTED''
                  then (case call_publishEvent w (universeEvent ''id'') s1 of
                          (None, s') \<Rightarrow>
                            logger_info (''Event published: '' @ ToString w (event ''title'')) JNull s'
                        | (Some publishError, s') \<Rightarrow>
                            logger_warn (''Event created but failed to publish: ''
                                           @ ToString w (event ''title''))
                              (JStr (message publishError)) s')
                  else s1);
               eventUrl = getEventUrl w (universeEvent ''slug'')
           in case markAsCreated w (event ''airtableId'') (universeEvent ''id'') (JStr eventUrl)
                     (universeEvent ''clientMutationId'') s2 of
                (Inl error, s3) \<Rightarrow> (Inl error, s3)
              | (Inr u, s3) \<Rightarrow>
                  (Inr universeEvent,
                   logger_success (''Event created: '' @ ToString w (event ''title'')
                                     @ '' -> '' @ eventUrl) JNull s3)))"

text \<open>
  The warning of the \<^verbatim>\<open>catch\<close>:
  \<^verbatim>\<open>`Retrying event ${event.title} (attempt ${retryCount + 1}/${this.maxRetries + 1})`\<close>.
\<close>

definition retrying_message ::
  "BulkEventCreator \<Rightarrow> 'a runtime_scheme \<Rightarrow> object \<Rightarrow> int \<Rightarrow> string" where
  "retrying_message this rt event retryCount =
     ''Retrying event '' @ ToString rt (event ''title'')
       @ '' (attempt '' @ Number_toString rt (of_int (retryCount + 1))
       @ ''/'' @ Number_toString rt (of_int (maxRetries this + 1)) @ '')''"

text \<open>
  \<^verbatim>\<open>processEvent(event, retryCount = 0)\<close>: the \<^verbatim>\<open>catch\<close> retries while
  \<^verbatim>\<open>retryCount < this.maxRetries\<close>, after a delay of \<^verbatim>\<open>1000 * (retryCount + 1)\<close>; otherwise
  it marks the record as an error and throws.
\<close>

function processEvent ::
  "BulkEventCreator \<Rightarrow> world \<Rightarrow> object \<Rightarrow> int \<Rightarrow> state \<Rightarrow> (error + object) \<times> state" where
  "processEvent this w event retryCount s =
     (case processEvent_try w event s of
        (Inr universeEvent, s1) \<Rightarrow> (Inr universeEvent, s1)
      | (Inl error, s1) \<Rightarrow>
          if retryCount < maxRetries this
          then processEvent this w event (retryCount + 1)
                 (delay (1000 * (retryCount + 1))
                    (logger_warn (retrying_message this w event retryCount) JNull s1))
          else (case markAsError w (event ''airtableId'') (JStr (message error)) s1 of
                  (Inl error', s2) \<Rightarrow> (Inl error', s2)
                | (Inr u, s2) \<Rightarrow> (Inl error, s2)))"
  by pat_completeness auto
termination
  by (relation "measure (\<lambda>(this, w, event, retryCount, s). nat (maxRetries this - retryCount))")
     auto

declare processEvent.simps [simp del]

subsubsection \<open>The tally of \<^verbatim>\<open>processBatch\<close>\<close>

text \<open>
  \<^verbatim>\<open>processBatch\<close> awaits \<^verbatim>\<open>Promise.allSettled\<close> of the records' \<^verbatim>\<open>processEvent\<close> promises
  and then counts: a fulfilled promise is a success, a rejected one an error, logged with
  the title of the record at the same index. This is that loop over the settled results
  (\<open>Inr\<close> fulfilled, \<open>Inl\<close> rejected); the counter \<^verbatim>\<open>errors\<close> is \<open>errs\<close>.
\<close>

fun processBatch_tally ::
  "world \<Rightarrow> (object \<times> (error + object)) list \<Rightarrow> nat \<times> nat \<Rightarrow> state \<Rightarrow> (nat \<times> nat) \<times> state" where
  "processBatch_tally w [] (success, errs) s = ((success, errs), s)"
| "processBatch_tally w ((event, Inr v) # rest) (success, errs) s =
     processBatch_tally w rest (success + 1, errs) s"
| "processBatch_tally w ((event, Inl reason) # rest) (success, errs) s =
     processBatch_tally w rest (success, errs + 1)
       (logger_error (''Event '' @ ToString w (event ''title'') @ '' failed:'')
          (JStr (message reason)) s)"

subsection \<open>The effects of one attempt, spelled out\<close>

text \<open>
  The properties below state complete traces. These are the pieces they are made of, each
  read off the code: what a failed attempt that is retried leaves behind (the call, the
  warning of the \<^verbatim>\<open>catch\<close>, the back-off timer), what the publish step leaves behind, and
  the two objects written to Airtable by \<^verbatim>\<open>markAsCreated\<close> and \<^verbatim>\<open>markAsError\<close> when the clock
  has been read \<open>n\<close> times before.
\<close>

definition failed_attempt :: "BulkEventCreator \<Rightarrow> world \<Rightarrow> object \<Rightarrow> int \<Rightarrow> effect list" where
  "failed_attempt this w event k =
     [Universe_createEvent event, Logger_warn (retrying_message this w event k) JNull,
      Delay (1000 * (k + 1))]"

definition publish_effects :: "world \<Rightarrow> object \<Rightarrow> object \<Rightarrow> nat \<Rightarrow> effect list" where
  "publish_effects w event universeEvent n =
     (if event ''publish'' = JBool True \<and> universeEvent ''state'' \<noteq> JStr ''POSTED''
      then [Universe_publishEvent (universeEvent ''id''),
            (case universe_publishEvent w n (universeEvent ''id'') of
               None \<Rightarrow> Logger_info (''Event published: '' @ ToString w (event ''title'')) JNull
             | Some publishError \<Rightarrow>
                 Logger_warn (''Event created but failed to publish: '' @ ToString w (event ''title''))
                   (JStr (message publishError)))]
      else [])"

definition created_data :: "world \<Rightarrow> object \<Rightarrow> nat \<Rightarrow> (string \<times> jsval) list" where
  "created_data w universeEvent n =
     [(''status'', JStr ''Created''),
      (''universeEventId'', universeEvent ''id''),
      (''universeUrl'', JStr (getEventUrl w (universeEvent ''slug''))),
      (''createdAt'', JStr (split_T_0 (Date_toISOString w (Date_now w n)))),
      (''lastUpdated'', JStr (split_T_0 (Date_toISOString w (Date_now w (n + 1)))))]
     @ (if truthy (universeEvent ''clientMutationId'')
        then [(''clientMutationId'', universeEvent ''clientMutationId'')] else [])"

definition error_data :: "world \<Rightarrow> string \<Rightarrow> nat \<Rightarrow> (string \<times> jsval) list" where
  "error_data w m n =
     [(''status'', JStr ''Error''), (''errorMessage'', JStr (take 1000 m)),
      (''lastUpdated'', JStr (split_T_0 (Date_toISOString w (Date_now w n))))]"

text \<open>
  The state in which the attempt with retry count \<open>retryCount + k\<close> starts, when the \<open>k\<close>
  attempts from \<open>retryCount\<close> on have failed: each of them ran the \<^verbatim>\<open>try\<close> block, logged
  the retry warning and waited \<^verbatim>\<open>1000 * (retryCount + 1)\<close> ms.
\<close>

fun state_before_attempt ::
  "BulkEventCreator \<Rightarrow> world \<Rightarrow> object \<Rightarrow> int \<Rightarrow> nat \<Rightarrow> state \<Rightarrow> state" where
  "state_before_attempt this w event retryCount 0 s = s"
| "state_before_attempt this w event retryCount (Suc k) s =
     state_before_attempt this w event (retryCount + 1) k
       (delay (1000 * (retryCount + 1))
          (logger_warn (retrying_message this w event retryCount) JNull
             (snd (processEvent_try w event s))))"

text \<open>
  The outcome of one attempt, that is of one pass through the \<^verbatim>\<open>try\<close> block started in
  state \<open>s\<close>, in terms of what the world answers. The attempt succeeds with the created
  event when the create call returns it and the write of status \<^verbatim>\<open>Created\<close> that follows
  is accepted. It fails with \<open>e\<close> when the create call fails with \<open>e\<close>, or when the create
  call returns and that write is refused with \<open>e\<close>. The publish step changes neither.
\<close>

definition attempt_succeeds :: "world \<Rightarrow> object \<Rightarrow> state \<Rightarrow> object \<Rightarrow> bool" where
  "attempt_succeeds w event s universeEvent =
     (universe_createEvent w (creates s) event = Inr universeEvent
      \<and> table_update w (updates s) (event ''airtableId'')
            (created_data w universeEvent (clock_reads s)) = None)"

definition attempt_fails :: "world \<Rightarrow> object \<Rightarrow> state \<Rightarrow> error \<Rightarrow> bool" where
  "attempt_fails w event s e =
     (case universe_createEvent w (creates s) event of
        Inl error \<Rightarrow> error = e
      | Inr universeEvent \<Rightarrow>
          table_update w (updates s) (event ''airtableId'')
            (created_data w universeEvent (clock_reads s)) = Some e)"

subsection \<open>Example inputs\<close>

text \<open>
  A runtime and a world for the concrete instances below: a clock fixed at noon of
  2025-07-31 in a local time zone that is UTC, decimal printing of the natural numbers (the
  only numbers the instances print), the two dates the instances parse, parsers that
  recognise no number (the instances parse none), and the three collaborators as
  parameters.
\<close>

fun show_nat :: "nat \<Rightarrow> string" where
  "show_nat n = (if n < 10 then [''0123456789'' ! n] else show_nat (n div 10) @ [''0123456789'' ! (n mod 10)])"

declare show_nat.simps [simp del]

definition example_runtime :: runtime where
  "example_runtime =
     \<lparr>Number_toString = (\<lambda>q. show_nat (nat \<lfloor>q\<rfloor>)),
      Number_toString36 = (\<lambda>q. ''0.4fzyo82mvyr''),
      String_toNumber = (\<lambda>s. NaN),
      parseFloat = (\<lambda>s. NaN),
      parseInt = (\<lambda>s. NaN),
      Date_new = (\<lambda>v. if v = JStr ''2025-08-01'' then Some 1754006400000
                     else if v = JStr ''2025-08-02'' then Some 1754092800000 else None),
      Date_setHours = (\<lambda>t h m. Some (t - t mod 86400000 + (int h * 60 + int m) * 60000)),
      Date_toISOString = (\<lambda>t. ''2025-07-31T12:00:00.000Z''),
      Date_now = (\<lambda>n. 1753963200000),
      Math_random = (\<lambda>n. 1 / 2)\<rparr>"

definition example_world ::
  "(nat \<Rightarrow> object \<Rightarrow> error + object) \<Rightarrow> (nat \<Rightarrow> jsval \<Rightarrow> error option)
     \<Rightarrow> (nat \<Rightarrow> jsval \<Rightarrow> (string \<times> jsval) list \<Rightarrow> error option) \<Rightarrow> world" where
  "example_world create publish update =
     runtime.extend example_runtime (world.fields create publish update)"

definition example_event :: object where
  "example_event =
     (\<lambda>k. JUndefined)
       (''airtableId'' := JStr ''rec001'', ''title'' := JStr ''Jazz Night'',
        ''startDate'' := JStr ''2025-08-01'', ''startTime'' := JStr ''19:30'',
        ''endDate'' := JStr ''2025-08-01'', ''endTime'' := JStr ''22:00'',
        ''address'' := JStr ''1 Main St'', ''venueName'' := JStr ''The Hall'',
        ''cityName'' := JStr ''Toronto'', ''publish'' := JBool True)"

definition example_universeEvent :: object where
  "example_universeEvent =
     (\<lambda>k. JUndefined)(''id'' := JStr ''evt1'', ''slug'' := JStr ''jazz-night'',
                        ''state'' := JStr ''DRAFT'')"

definition example_creator :: BulkEventCreator where
  "example_creator = \<lparr>batchSize = 3, delayBetweenBatches = 2000, maxRetries = 2\<rparr>"

section \<open>Properties\<close>

subsection \<open>Batch partitioning\<close>

lemma js_slice_window:
  assumes "0 \<le> i" "0 < b"
  shows "js_slice xs i (i + b) = take (nat b) (drop (nat i) xs)"
  using assms by (auto simp: js_slice_def Let_def min_def take_all_iff)

lemma ceil_div_shift:
  fixes n b :: nat
  assumes "0 < n" "0 < b"
  shows "(n + b - 1) div b = Suc ((n - 1) div b)"
proof -
  have "n + b - 1 = (n - 1) + b" using assms by linarith
  then have "(n + b - 1) div b = ((n - 1) + b) div b" by simp
  also have "\<dots> = Suc ((n - 1) div b)" using assms by (subst div_add_self2) auto
  finally show ?thesis .
qed

lemma ceil_div_step:
  fixes n b :: nat
  assumes "0 < b" "b \<le> n"
  shows "(n + b - 1) div b = Suc ((n - b + b - 1) div b)"
proof -
  have "n - b + b - 1 = n - 1" using assms by linarith
  moreover have "0 < n" using assms by linarith
  ultimately show ?thesis using ceil_div_shift[of n b] assms by simp
qed

lemma ceil_div_small:
  fixes n b :: nat
  assumes "0 < n" "n \<le> b"
  shows "(n + b - 1) div b = 1"
proof -
  have "(n - 1) div b = 0" using assms by simp
  moreover have "0 < b" using assms by linarith
  ultimately show ?thesis using ceil_div_shift[of n b] assms by simp
qed

lemma ceiling_as_div:
  fixes n b :: nat
  assumes "0 < b"
  shows "\<lceil>real n / real b\<rceil> = int ((n + b - 1) div b)"
proof -
  define m where "m = (n + b - 1) div b"
  have lo: "m * b \<le> n + b - 1" unfolding m_def by simp
  have hi: "n + b - 1 < m * b + b" unfolding m_def using assms
    by (metis dividend_less_div_times add.commute mult.commute)
  from hi assms have up: "n \<le> m * b" by linarith
  have dn: "m * b < n + b" using lo assms by linarith
  have "real n \<le> real (m * b)" using up by (simp only: of_nat_le_iff)
  then have r1: "real n / real b \<le> real m" using assms by (simp add: field_simps)
  have "real (m * b) < real (n + b)" using dn by (simp only: of_nat_less_iff)
  then have r2: "real m - 1 < real n / real b" using assms by (simp add: field_simps)
  show ?thesis unfolding m_def[symmetric] using r1 r2 by (simp add: ceiling_eq_iff)
qed

text \<open>
  The loop invariant, from any non-negative index \<open>i\<close> and any accumulator: the loop
  returns, and what it appends is a partition of the rest of the input into non-empty
  windows of the batch size, the last one possibly shorter.
\<close>

lemma createBatches_loop_returns:
  assumes "0 < batchSize this" "0 \<le> i"
  shows "\<exists>bs. createBatches_loop this xs i acc = Some (acc @ bs)
           \<and> concat bs = drop (nat i) xs
           \<and> (\<forall>c \<in> set bs. c \<noteq> [] \<and> length c \<le> nat (batchSize this))
           \<and> (\<forall>k. Suc k < length bs \<longrightarrow> length (bs ! k) = nat (batchSize this))
           \<and> length bs = (length xs - nat i + nat (batchSize this) - 1) div nat (batchSize this)"
  using assms
proof (induction "nat (int (length xs) - i)" arbitrary: i acc rule: less_induct)
  case less
  define b where "b = batchSize this"
  have bpos: "0 < b" using less.prems by (simp add: b_def)
  have pos: "0 < nat b" using bpos by simp
  show ?case unfolding b_def[symmetric]
  proof (cases "i < int (length xs)")
    case False
    then have "createBatches_loop this xs i acc = Some acc"
      by (subst createBatches_loop.simps) simp
    moreover from False less.prems have "drop (nat i) xs = []" by simp
    moreover from False less.prems have "(length xs - nat i + nat b - 1) div nat b = 0"
      using pos by simp
    ultimately show "\<exists>bs. createBatches_loop this xs i acc = Some (acc @ bs)
           \<and> concat bs = drop (nat i) xs
           \<and> (\<forall>c \<in> set bs. c \<noteq> [] \<and> length c \<le> nat b)
           \<and> (\<forall>k. Suc k < length bs \<longrightarrow> length (bs ! k) = nat b)
           \<and> length bs = (length xs - nat i + nat b - 1) div nat b" by simp
  next
    case True
    let ?c = "take (nat b) (drop (nat i) xs)"
    have lt: "nat i < length xs" using True less.prems by linarith
    have step: "createBatches_loop this xs i acc = createBatches_loop this xs (i + b) (acc @ [?c])"
      using True less.prems bpos
      by (subst createBatches_loop.simps) (simp add: js_slice_window b_def)
    have "nat (int (length xs) - (i + b)) < nat (int (length xs) - i)"
      using True bpos by simp
    from less.hyps[OF this, of "acc @ [?c]"] less.prems bpos
    obtain bs where bs: "createBatches_loop this xs (i + b) (acc @ [?c]) = Some ((acc @ [?c]) @ bs)"
      "concat bs = drop (nat (i + b)) xs"
      "\<forall>c \<in> set bs. c \<noteq> [] \<and> length c \<le> nat b"
      "\<forall>k. Suc k < length bs \<longrightarrow> length (bs ! k) = nat b"
      "length bs = (length xs - nat (i + b) + nat b - 1) div nat b"
      unfolding b_def by auto
    have nat_ib: "nat (i + b) = nat i + nat b"
      using less.prems bpos by (simp add: nat_add_distrib)
    have c1: "concat (?c # bs) = drop (nat i) xs"
    proof -
      have "drop (nat (i + b)) xs = drop (nat b) (drop (nat i) xs)"
        unfolding nat_ib by (simp add: add.commute)
      with bs(2) have "concat (?c # bs) = ?c @ drop (nat b) (drop (nat i) xs)"
        by (simp del: drop_drop)
      then show ?thesis by (simp only: append_take_drop_id)
    qed
    have c2: "\<forall>c \<in> set (?c # bs). c \<noteq> [] \<and> length c \<le> nat b"
      using bs(3) lt pos by auto
    have c3: "\<forall>k. Suc k < length (?c # bs) \<longrightarrow> length ((?c # bs) ! k) = nat b"
    proof (intro allI impI)
      fix k assume k: "Suc k < length (?c # bs)"
      then obtain c cs where "bs = c # cs" by (cases bs) auto
      with bs(3) have "concat bs \<noteq> []" by simp
      with bs(2) have big: "nat i + nat b < length xs" by (simp add: nat_ib)
      show "length ((?c # bs) ! k) = nat b"
      proof (cases k)
        case 0
        then show ?thesis using big by simp
      next
        case (Suc j)
        then show ?thesis using k bs(4) by simp
      qed
    qed
    have c4: "length (?c # bs) = (length xs - nat i + nat b - 1) div nat b"
    proof (cases "nat b \<le> length xs - nat i")
      case True
      have "length xs - nat (i + b) = length xs - nat i - nat b" by (simp add: nat_ib)
      then show ?thesis using ceil_div_step[OF pos True] bs(5) by simp
    next
      case False
      then have "length xs - nat (i + b) = 0" by (simp add: nat_ib)
      then have "length bs = 0" using bs(5) pos by simp
      moreover have "(length xs - nat i + nat b - 1) div nat b = 1"
        using ceil_div_small[of "length xs - nat i" "nat b"] False lt by simp
      ultimately show ?thesis by simp
    qed
    show "\<exists>bs. createBatches_loop this xs i acc = Some (acc @ bs)
           \<and> concat bs = drop (nat i) xs
           \<and> (\<forall>c \<in> set bs. c \<noteq> [] \<and> length c \<le> nat b)
           \<and> (\<forall>k. Suc k < length bs \<longrightarrow> length (bs ! k) = nat b)
           \<and> length bs = (length xs - nat i + nat b - 1) div nat b"
      apply (rule exI[of _ "?c # bs"])
      using step bs(1) c1 c2 c3 c4 by simp
  qed
qed

text \<open>
  C6. For every input list of length \<open>L\<close> and every batch size \<open>B > 0\<close>,
  \<^verbatim>\<open>createBatches\<close> returns; it produces exactly \<open>\<lceil>L / B\<rceil>\<close> batches, every batch has
  at most \<open>B\<close> elements, every batch but possibly the last has exactly \<open>B\<close>, and the
  batches concatenated in order are the input list.
\<close>

theorem createBatches_partition:
  assumes "0 < batchSize this"
  shows "\<exists>batches. createBatches this events = Some batches
           \<and> int (length batches) = \<lceil>real (length events) / real_of_int (batchSize this)\<rceil>
           \<and> (\<forall>c \<in> set batches. int (length c) \<le> batchSize this)
           \<and> (\<forall>k. Suc k < length batches \<longrightarrow> int (length (batches ! k)) = batchSize this)
           \<and> concat batches = events"
proof -
  define b where "b = nat (batchSize this)"
  have bpos: "0 < b" and bint: "batchSize this = int b" using assms by (simp_all add: b_def)
  from createBatches_loop_returns[OF assms, of 0 events "[]"]
  obtain bs where bs: "createBatches this events = Some bs"
      "concat bs = events"
      "\<forall>c \<in> set bs. c \<noteq> [] \<and> length c \<le> b"
      "\<forall>k. Suc k < length bs \<longrightarrow> length (bs ! k) = b"
      "length bs = (length events + b - 1) div b"
    unfolding createBatches_def b_def by auto
  have "int (length bs) = \<lceil>real (length events) / real b\<rceil>"
    using ceiling_as_div[OF bpos, of "length events"] bs(5) by simp
  then have "int (length bs) = \<lceil>real (length events) / real_of_int (batchSize this)\<rceil>"
    by (simp add: bint)
  moreover have "\<forall>c \<in> set bs. int (length c) \<le> batchSize this"
    using bs(3) by (simp add: bint)
  moreover have "\<forall>k. Suc k < length bs \<longrightarrow> int (length (bs ! k)) = batchSize this"
    using bs(4) by (simp add: bint)
  ultimately show ?thesis using bs(1,2) by blast
qed

text \<open>
  Seven records and a batch size of three: three batches, of sizes 3, 3 and 1.
\<close>

theorem createBatches_partition_witness:
  "0 < batchSize \<lparr>batchSize = 3, delayBetweenBatches = 2000, maxRetries = 3\<rparr>
   \<and> createBatches \<lparr>batchSize = 3, delayBetweenBatches = 2000, maxRetries = 3\<rparr>
        [1, 2, 3, 4, 5, 6, 7 :: nat] = Some [[1, 2, 3], [4, 5, 6], [7]]
   \<and> (\<exists>batches. createBatches \<lparr>batchSize = 3, delayBetweenBatches = 2000, maxRetries = 3\<rparr>
          [1, 2, 3, 4, 5, 6, 7 :: nat] = Some batches
        \<and> int (length batches) = \<lceil>real (length [1, 2, 3, 4, 5, 6, 7 :: nat]) / real_of_int 3\<rceil>
        \<and> (\<forall>c \<in> set batches. int (length c) \<le> 3)
        \<and> (\<forall>k. Suc k < length batches \<longrightarrow> int (length (batches ! k)) = 3)
        \<and> concat batches = [1, 2, 3, 4, 5, 6, 7])"
proof -
  have ev: "createBatches \<lparr>batchSize = 3, delayBetweenBatches = 2000, maxRetries = 3\<rparr>
        [1, 2, 3, 4, 5, 6, 7 :: nat] = Some [[1, 2, 3], [4, 5, 6], [7]]"
    by (simp add: createBatches_def createBatches_loop.simps js_slice_def)
  have pos: "0 < batchSize \<lparr>batchSize = 3, delayBetweenBatches = 2000, maxRetries = 3\<rparr>"
    by simp
  from createBatches_partition[OF pos, of "[1, 2, 3, 4, 5, 6, 7 :: nat]"] ev pos
  show ?thesis by simp
qed

subsection \<open>The status sink\<close>

lemma example_world_sel [simp]:
  "universe_createEvent (example_world c p u) = c"
  "universe_publishEvent (example_world c p u) = p"
  "table_update (example_world c p u) = u"
  "Date_toISOString (example_world c p u) t = ''2025-07-31T12:00:00.000Z''"
  "Number_toString (example_world c p u) q = show_nat (nat \<lfloor>q\<rfloor>)"
  by (simp_all add: example_world_def example_runtime_def runtime.defs world.defs)

lemma fst_markAsError: "fst (markAsError w recordId errorMessage s) = Inr ()"
  by (simp add: markAsError_def split: prod.splits sum.splits)

lemma markAsError_effects:
  "markAsError w recordId (JStr m) s =
     (let updateData = [(''status'', JStr ''Error''), (''errorMessage'', JStr (take 1000 m)),
                        (''lastUpdated'', JStr (split_T_0 (Date_toISOString w (Date_now w (clock_reads s)))))]
      in (Inr (),
          s\<lparr>clock_reads := clock_reads s + 1, updates := updates s + 1,
            trace := trace s @ [Table_update recordId updateData]
               @ (case table_update w (updates s) recordId updateData of
                    None \<Rightarrow> []
                  | Some e \<Rightarrow> [Logger_error (''Failed to mark record '' @ ToString w recordId @ '' as error:'')
                                (JStr (message e))])\<rparr>))"
  by (simp add: markAsError_def markAsError_try_def today_def call_table_update_def Let_def
        logger_error_def emit_def split: option.splits)

lemma markAsCreated_effects:
  "markAsCreated w recordId (uev ''id'') (JStr (getEventUrl w (uev ''slug''))) (uev ''clientMutationId'') s =
     (let data = created_data w uev (clock_reads s);
          s3 = s\<lparr>clock_reads := clock_reads s + 2, updates := updates s + 1,
                 trace := trace s @ [Table_update recordId data]\<rparr>
      in case table_update w (updates s) recordId data of
           None \<Rightarrow> (Inr (), s3)
         | Some e \<Rightarrow>
             (Inl e, s3\<lparr>trace := trace s3 @
                 [Logger_error (''Failed to mark record '' @ ToString w recordId
                                  @ '' as created:'') (JStr (message e))]\<rparr>))"
  by (cases "truthy (uev ''clientMutationId'')")
     (simp_all add: markAsCreated_def today_def call_table_update_def Let_def created_data_def
        logger_error_def emit_def split: option.splits)

text \<open>
  C9. \<^verbatim>\<open>markAsError\<close> never propagates a failure: whatever the record id, the message and
  the state, and whatever the status write does, its result is not an error. When the
  status write fails with \<open>e\<close>, the \<^verbatim>\<open>try\<close> block of \<^verbatim>\<open>markAsError\<close> does fail with \<open>e\<close>
  and the only thing that follows the write is the log entry; \<^verbatim>\<open>markAsCreated\<close> and
  \<^verbatim>\<open>updateEventStatus\<close>, by contrast, hand the same \<open>e\<close> to their caller.
\<close>

theorem markAsError_swallows_failure:
  "fst (markAsError w recordId errorMessage s) = Inr ()
   \<and> ((\<forall>d. table_update w (updates s) recordId d = Some e) \<longrightarrow>
        fst (markAsError_try w recordId (JStr m) s) = Inl e
      \<and> trace (snd (markAsError w recordId (JStr m) s)) =
          trace s @ [Table_update recordId (error_data w m (clock_reads s)),
                     Logger_error (''Failed to mark record '' @ ToString w recordId @ '' as error:'')
                       (JStr (message e))]
      \<and> fst (markAsCreated w recordId universeEventId universeUrl clientMutationId s) = Inl e
      \<and> fst (updateEventStatus w recordId status universeEventId errorMessage' clientMutationId s) = Inl e)"
proof -
  have a: "fst (markAsError w recordId errorMessage s) = Inr ()"
    by (simp add: markAsError_def split: prod.splits sum.splits)
  have b: "fst (markAsError_try w recordId (JStr m) s) = Inl e
      \<and> trace (snd (markAsError w recordId (JStr m) s)) =
          trace s @ [Table_update recordId (error_data w m (clock_reads s)),
                     Logger_error (''Failed to mark record '' @ ToString w recordId @ '' as error:'')
                       (JStr (message e))]
      \<and> fst (markAsCreated w recordId universeEventId universeUrl clientMutationId s) = Inl e
      \<and> fst (updateEventStatus w recordId status universeEventId errorMessage' clientMutationId s) = Inl e"
    if f: "\<forall>d. table_update w (updates s) recordId d = Some e"
  proof (intro conjI)
    show "fst (markAsError_try w recordId (JStr m) s) = Inl e"
      using f by (simp add: markAsError_try_def today_def call_table_update_def Let_def)
    show "trace (snd (markAsError w recordId (JStr m) s)) =
          trace s @ [Table_update recordId (error_data w m (clock_reads s)),
                     Logger_error (''Failed to mark record '' @ ToString w recordId @ '' as error:'')
                       (JStr (message e))]"
      using f by (simp add: markAsError_effects Let_def error_data_def)
    show "fst (markAsCreated w recordId universeEventId universeUrl clientMutationId s) = Inl e"
      using f by (simp add: markAsCreated_def today_def call_table_update_def Let_def split: prod.splits)
    show "fst (updateEventStatus w recordId status universeEventId errorMessage' clientMutationId s) = Inl e"
      using f by (simp add: updateEventStatus_def today_def call_table_update_def Let_def split: prod.splits)
  qed
  show ?thesis using a b by blast
qed

text \<open>
  An Airtable that rejects every write: \<^verbatim>\<open>markAsError\<close> logs and returns,
  \<^verbatim>\<open>markAsCreated\<close> and \<^verbatim>\<open>updateEventStatus\<close> fail.
\<close>

theorem markAsError_swallows_failure_witness:
  "(\<forall>d. table_update
          (example_world (\<lambda>n e. Inr example_universeEvent) (\<lambda>n i. None)
             (\<lambda>n r d. Some (Error ''airtable unavailable'')))
          (updates initial_state) (JStr ''rec001'') d = Some (Error ''airtable unavailable''))
   \<and> fst (markAsError
       (example_world (\<lambda>n e. Inr example_universeEvent) (\<lambda>n i. None)
          (\<lambda>n r d. Some (Error ''airtable unavailable'')))
       (JStr ''rec001'') (JStr ''Universe API errors: title missing'') initial_state) = Inr ()
   \<and> trace (snd (markAsError
       (example_world (\<lambda>n e. Inr example_universeEvent) (\<lambda>n i. None)
          (\<lambda>n r d. Some (Error ''airtable unavailable'')))
       (JStr ''rec001'') (JStr ''Universe API errors: title missing'') initial_state)) =
       [Table_update (JStr ''rec001'')
          [(''status'', JStr ''Error''), (''errorMessage'', JStr ''Universe API errors: title missing''),
           (''lastUpdated'', JStr ''2025-07-31'')],
        Logger_error ''Failed to mark record rec001 as error:'' (JStr ''airtable unavailable'')]
   \<and> fst (markAsCreated
       (example_world (\<lambda>n e. Inr example_universeEvent) (\<lambda>n i. None)
          (\<lambda>n r d. Some (Error ''airtable unavailable'')))
       (JStr ''rec001'') (JStr ''evt1'') (JStr ''https://www.universe.com/jazz-night'') JNull
       initial_state) = Inl (Error ''airtable unavailable'')
   \<and> fst (updateEventStatus
       (example_world (\<lambda>n e. Inr example_universeEvent) (\<lambda>n i. None)
          (\<lambda>n r d. Some (Error ''airtable unavailable'')))
       (JStr ''rec001'') (JStr ''Created'') (JStr ''evt1'') JNull JNull
       initial_state) = Inl (Error ''airtable unavailable'')"
proof -
  let ?w = "example_world (\<lambda>n e. Inr example_universeEvent) (\<lambda>n i. None)
              (\<lambda>n r d. Some (Error ''airtable unavailable''))"
  have h: "\<forall>d. table_update ?w (updates initial_state) (JStr ''rec001'') d
                = Some (Error ''airtable unavailable'')" by simp
  note T = markAsError_swallows_failure[of ?w "JStr ''rec001''" "JStr ''Universe API errors: title missing''"
      initial_state "Error ''airtable unavailable''" "''Universe API errors: title missing''"
      "JStr ''evt1''" "JStr ''https://www.universe.com/jazz-night''" JNull "JStr ''Created''" JNull]
  from T h have a: "fst (markAsError ?w (JStr ''rec001'') (JStr ''Universe API errors: title missing'')
                      initial_state) = Inr ()" by blast
  from T h have b: "trace (snd (markAsError ?w (JStr ''rec001'')
       (JStr ''Universe API errors: title missing'') initial_state)) =
       [Table_update (JStr ''rec001'')
          [(''status'', JStr ''Error''), (''errorMessage'', JStr ''Universe API errors: title missing''),
           (''lastUpdated'', JStr ''2025-07-31'')],
        Logger_error ''Failed to mark record rec001 as error:'' (JStr ''airtable unavailable'')]"
    by (simp add: initial_state_def error_data_def split_T_0_def)
  from T h have c: "fst (markAsCreated ?w (JStr ''rec001'') (JStr ''evt1'')
       (JStr ''https://www.universe.com/jazz-night'') JNull initial_state)
         = Inl (Error ''airtable unavailable'')"
    "fst (updateEventStatus ?w (JStr ''rec001'') (JStr ''Created'') (JStr ''evt1'') JNull JNull
       initial_state) = Inl (Error ''airtable unavailable'')"
    by blast+
  show ?thesis
    by (intro conjI) (fact h a b c)+
qed

subsection \<open>The per-record protocol\<close>

text \<open>
  One pass through the \<^verbatim>\<open>try\<close> block, then the three ways \<^verbatim>\<open>processEvent\<close> continues:
  it returns, it retries, or it gives up.
\<close>

lemma try_create_fails:
  assumes "universe_createEvent w (creates s) event = Inl e"
  shows "processEvent_try w event s =
           (Inl e, s\<lparr>creates := creates s + 1, trace := trace s @ [Universe_createEvent event]\<rparr>)"
  using assms by (simp add: processEvent_try_def call_createEvent_def emit_def)

lemma processEvent_failing_prefix:
  assumes "r \<le> r'" "r' \<le> maxRetries this"
      and "\<forall>j < nat (r' - r). universe_createEvent w (creates s + j) event = Inl (err j)"
  shows "processEvent this w event r s =
           processEvent this w event r'
             (s\<lparr>creates := creates s + nat (r' - r),
                trace := trace s @ concat (map (failed_attempt this w event) [r..r' - 1])\<rparr>)"
  using assms
proof (induction "nat (r' - r)" arbitrary: r s err)
  case 0
  then have "r = r'" by simp
  then show ?case by simp
next
  case (Suc n)
  then have lt: "r < r'" and rM: "r < maxRetries this" by linarith+
  have f0: "universe_createEvent w (creates s) event = Inl (err 0)"
    using Suc.prems(3) Suc.hyps(2) by (metis add.right_neutral zero_less_Suc)
  let ?s1 = "s\<lparr>creates := creates s + 1, trace := trace s @ [Universe_createEvent event]\<rparr>"
  let ?s2 = "delay (1000 * (r + 1)) (logger_warn (retrying_message this w event r) JNull ?s1)"
  have step: "processEvent this w event r s = processEvent this w event (r + 1) ?s2"
    by (subst processEvent.simps) (simp add: try_create_fails[OF f0] rM)
  have n: "n = nat (r' - (r + 1))" using Suc.hyps(2) by linarith
  have fs: "\<forall>j < nat (r' - (r + 1)). universe_createEvent w (creates ?s2 + j) event = Inl ((err \<circ> Suc) j)"
  proof (intro allI impI)
    fix j assume "j < nat (r' - (r + 1))"
    then have "Suc j < nat (r' - r)" by linarith
    from Suc.prems(3)[rule_format, OF this]
    show "universe_createEvent w (creates ?s2 + j) event = Inl ((err \<circ> Suc) j)"
      by (simp add: delay_def logger_warn_def emit_def)
  qed
  have le: "r + 1 \<le> r'" using lt by simp
  have up: "[r..r' - 1] = r # [r + 1..r' - 1]" using lt by (simp add: upto_rec1)
  have nn: "Suc (creates s + nat (r' - (r + 1))) = creates s + nat (r' - r)" using lt by linarith
  show ?case
    unfolding step Suc.hyps(1)[OF n le Suc.prems(2) fs]
    by (simp add: up failed_attempt_def delay_def logger_warn_def emit_def nn)
qed

lemma publish_step:
  "(if event ''publish'' = JBool True \<and> uev ''state'' \<noteq> JStr ''POSTED''
    then (case call_publishEvent w (uev ''id'') s1 of
            (None, s') \<Rightarrow>
              logger_info (''Event published: '' @ ToString w (event ''title'')) JNull s'
          | (Some publishError, s') \<Rightarrow>
              logger_warn (''Event created but failed to publish: '' @ ToString w (event ''title''))
                (JStr (message publishError)) s')
    else s1)
   = s1\<lparr>publishes := publishes s1 + (if publish_effects w event uev (publishes s1) = [] then 0 else 1),
         trace := trace s1 @ publish_effects w event uev (publishes s1)\<rparr>"
proof (cases "event ''publish'' = JBool True \<and> uev ''state'' \<noteq> JStr ''POSTED''")
  case True
  then show ?thesis
    by (cases "universe_publishEvent w (publishes s1) (uev ''id'')")
       (simp_all add: call_publishEvent_def publish_effects_def logger_info_def logger_warn_def emit_def)
next
  case False
  then have "publish_effects w event uev (publishes s1) = []"
    by (auto simp: publish_effects_def)
  moreover from False have "(if event ''publish'' = JBool True \<and> uev ''state'' \<noteq> JStr ''POSTED''
    then (case call_publishEvent w (uev ''id'') s1 of
            (None, s') \<Rightarrow>
              logger_info (''Event published: '' @ ToString w (event ''title'')) JNull s'
          | (Some publishError, s') \<Rightarrow>
              logger_warn (''Event created but failed to publish: '' @ ToString w (event ''title''))
                (JStr (message publishError)) s')
    else s1) = s1" by (simp only: if_False)
  ultimately show ?thesis by simp
qed

lemma try_create_succeeds:
  assumes "universe_createEvent w (creates s) event = Inr uev"
  shows "processEvent_try w event s =
     (let pub = publish_effects w event uev (publishes s);
          data = created_data w uev (clock_reads s);
          s3 = s\<lparr>creates := creates s + 1,
                 publishes := publishes s + (if pub = [] then 0 else 1),
                 clock_reads := clock_reads s + 2,
                 updates := updates s + 1,
                 trace := trace s @ [Universe_createEvent event] @ pub
                            @ [Table_update (event ''airtableId'') data]\<rparr>
      in case table_update w (updates s) (event ''airtableId'') data of
           None \<Rightarrow>
             (Inr uev, s3\<lparr>trace := trace s3 @
                 [Logger_success (''Event created: '' @ ToString w (event ''title'') @ '' -> ''
                                    @ getEventUrl w (uev ''slug'')) JNull]\<rparr>)
         | Some e \<Rightarrow>
             (Inl e, s3\<lparr>trace := trace s3 @
                 [Logger_error (''Failed to mark record '' @ ToString w (event ''airtableId'')
                                  @ '' as created:'') (JStr (message e))]\<rparr>))"
proof -
  have c: "call_createEvent w event s =
            (Inr uev, s\<lparr>creates := creates s + 1, trace := trace s @ [Universe_createEvent event]\<rparr>)"
    using assms by (simp add: call_createEvent_def emit_def)
  show ?thesis
    unfolding processEvent_try_def c
    apply (simp only: prod.case sum.case publish_step)
    apply (simp add: markAsCreated_effects Let_def logger_success_def emit_def split: option.splits)
    done
qed

lemma try_trace_extends: "\<exists>t. trace (snd (processEvent_try w event s)) = trace s @ t"
proof (cases "universe_createEvent w (creates s) event")
  case (Inl e)
  then show ?thesis by (simp add: try_create_fails)
next
  case (Inr uev)
  then show ?thesis
    by (simp add: try_create_succeeds Let_def split: option.splits)
qed

lemma markAsError_trace_extends:
  "\<exists>t. trace (snd (markAsError w recordId (JStr m) s)) = trace s @ t"
  by (simp add: markAsError_effects Let_def)

lemma processEvent_trace_extends:
  "\<exists>t. trace (snd (processEvent this w event r s)) = trace s @ t"
proof (induction this w event r s rule: processEvent.induct)
  case (1 this w event retryCount s)
  obtain res s1 where t: "processEvent_try w event s = (res, s1)" by (cases "processEvent_try w event s")
  from try_trace_extends[of w event s] t obtain t1 where t1: "trace s1 = trace s @ t1" by auto
  show ?case
  proof (cases res)
    case (Inr uev)
    then show ?thesis using t t1 by (subst processEvent.simps) simp
  next
    case (Inl e)
    show ?thesis
    proof (cases "retryCount < maxRetries this")
      case True
      let ?s2 = "delay (1000 * (retryCount + 1)) (logger_warn (retrying_message this w event retryCount) JNull s1)"
      from "1.IH"[OF t[symmetric] Inl True]
      obtain t2 where "trace (snd (processEvent this w event (retryCount + 1) ?s2)) = trace ?s2 @ t2"
        by auto
      then show ?thesis using t Inl True t1
        by (subst processEvent.simps) (simp add: delay_def logger_warn_def emit_def)
    next
      case False
      from markAsError_trace_extends[of w "event ''airtableId''" "message e" s1]
      obtain t2 where "trace (snd (markAsError w (event ''airtableId'') (JStr (message e)) s1)) = trace s1 @ t2"
        by auto
      then show ?thesis using t Inl False t1
        by (subst processEvent.simps) (auto split: prod.splits sum.splits)
    qed
  qed
qed

lemma processEvent_success_step:
  assumes "processEvent_try w event s = (Inr uev, s1)"
  shows "processEvent this w event r s = (Inr uev, s1)"
  using assms by (subst processEvent.simps) simp

lemma processEvent_retry_step:
  assumes "processEvent_try w event s = (Inl e, s1)" "r < maxRetries this"
  shows "processEvent this w event r s =
           processEvent this w event (r + 1)
             (delay (1000 * (r + 1)) (logger_warn (retrying_message this w event r) JNull s1))"
  using assms by (subst processEvent.simps) simp

lemma processEvent_exhausted:
  assumes "processEvent_try w event s = (Inl e, s1)" "\<not> r < maxRetries this"
  shows "processEvent this w event r s =
           (Inl e, snd (markAsError w (event ''airtableId'') (JStr (message e)) s1))"
proof -
  obtain u s2 where m: "markAsError w (event ''airtableId'') (JStr (message e)) s1 = (u, s2)"
    by (cases "markAsError w (event ''airtableId'') (JStr (message e)) s1")
  with fst_markAsError[of w "event ''airtableId''" "JStr (message e)" s1] have "u = Inr ()" by simp
  with m assms show ?thesis by (subst processEvent.simps) simp
qed

lemma try_counts:
  "creates (snd (processEvent_try w event s)) = creates s + 1"
  "[d. Delay d \<leftarrow> trace (snd (processEvent_try w event s))] = [d. Delay d \<leftarrow> trace s]"
proof -
  show "creates (snd (processEvent_try w event s)) = creates s + 1"
  proof (cases "universe_createEvent w (creates s) event")
    case (Inl e)
    then show ?thesis by (simp add: try_create_fails)
  next
    case (Inr uev)
    then show ?thesis by (simp add: try_create_succeeds Let_def split: option.splits)
  qed
  show "[d. Delay d \<leftarrow> trace (snd (processEvent_try w event s))] = [d. Delay d \<leftarrow> trace s]"
  proof (cases "universe_createEvent w (creates s) event")
    case (Inl e)
    then show ?thesis by (simp add: try_create_fails)
  next
    case (Inr uev)
    then show ?thesis
      by (simp add: try_create_succeeds Let_def publish_effects_def split: option.splits)
  qed
qed

lemma state_before_attempt_counts:
  "creates (state_before_attempt this w event r k s) = creates s + k"
  "[d. Delay d \<leftarrow> trace (state_before_attempt this w event r k s)]
     = [d. Delay d \<leftarrow> trace s] @ map (\<lambda>j. 1000 * (j + 1)) [r..r + int k - 1]"
proof -
  show "creates (state_before_attempt this w event r k s) = creates s + k"
    by (induction k arbitrary: r s)
       (simp_all add: try_counts delay_def logger_warn_def emit_def)
  show "[d. Delay d \<leftarrow> trace (state_before_attempt this w event r k s)]
     = [d. Delay d \<leftarrow> trace s] @ map (\<lambda>j. 1000 * (j + 1)) [r..r + int k - 1]"
  proof (induction k arbitrary: r s)
    case 0
    show ?case by simp
  next
    case (Suc k)
    have up: "[r..r + int (Suc k) - 1] = r # [r + 1..r + 1 + int k - 1]"
      by (simp add: upto_rec1 add.commute add.left_commute)
    show ?case
      unfolding up
      by (simp add: Suc.IH try_counts delay_def logger_warn_def emit_def)
  qed
qed

lemma processEvent_failed_attempts:
  assumes "\<forall>j < k. \<exists>e. fst (processEvent_try w event (state_before_attempt this w event r j s)) = Inl e"
      and "r + int k \<le> maxRetries this"
  shows "processEvent this w event r s =
           processEvent this w event (r + int k) (state_before_attempt this w event r k s)"
  using assms
proof (induction k arbitrary: r s)
  case 0
  show ?case by simp
next
  case (Suc k)
  from Suc.prems(1) obtain e where "fst (processEvent_try w event s) = Inl e"
    by (metis state_before_attempt.simps(1) zero_less_Suc)
  then obtain s1 where t: "processEvent_try w event s = (Inl e, s1)"
    by (cases "processEvent_try w event s") auto
  have lt: "r < maxRetries this" using Suc.prems(2) by simp
  let ?s2 = "delay (1000 * (r + 1)) (logger_warn (retrying_message this w event r) JNull s1)"
  have step: "processEvent this w event r s = processEvent this w event (r + 1) ?s2"
    by (rule processEvent_retry_step[OF t lt])
  have f: "\<forall>j < k. \<exists>e. fst (processEvent_try w event
                (state_before_attempt this w event (r + 1) j ?s2)) = Inl e"
  proof (intro allI impI)
    fix j assume "j < k"
    then have "Suc j < Suc k" by simp
    from Suc.prems(1)[rule_format, OF this] show
      "\<exists>e. fst (processEvent_try w event (state_before_attempt this w event (r + 1) j ?s2)) = Inl e"
      using t by simp
  qed
  have b: "r + 1 + int k \<le> maxRetries this" using Suc.prems(2) by simp
  have "processEvent this w event (r + 1) ?s2 =
          processEvent this w event (r + 1 + int k) (state_before_attempt this w event (r + 1) k ?s2)"
    by (rule Suc.IH[OF f b])
  then show ?case unfolding step using t by (simp add: add.commute add.left_commute)
qed

lemma processEvent_attempt_succeeds:
  assumes "int k \<le> maxRetries this"
      and "\<forall>j < k. \<exists>e. fst (processEvent_try w event (state_before_attempt this w event 0 j s)) = Inl e"
      and "fst (processEvent_try w event (state_before_attempt this w event 0 k s)) = Inr uev"
  shows "processEvent this w event 0 s
           = (Inr uev, snd (processEvent_try w event (state_before_attempt this w event 0 k s)))"
    and "creates (snd (processEvent this w event 0 s)) = creates s + k + 1"
    and "[d. Delay d \<leftarrow> trace (snd (processEvent this w event 0 s))]
           = [d. Delay d \<leftarrow> trace s] @ map (\<lambda>j. 1000 * (j + 1)) [0..int k - 1]"
    and "\<exists>t n. trace (snd (processEvent this w event 0 s)) =
           t @ [Table_update (event ''airtableId'') (created_data w uev n),
                Logger_success (''Event created: '' @ ToString w (event ''title'') @ '' -> ''
                                  @ getEventUrl w (uev ''slug'')) JNull]"
proof -
  let ?sk = "state_before_attempt this w event 0 k s"
  obtain s' where t: "processEvent_try w event ?sk = (Inr uev, s')"
    using assms(3) by (cases "processEvent_try w event ?sk") auto
  have pre: "processEvent this w event 0 s = processEvent this w event (0 + int k) ?sk"
    by (rule processEvent_failed_attempts) (use assms in auto)
  show r: "processEvent this w event 0 s = (Inr uev, snd (processEvent_try w event ?sk))"
    unfolding pre using processEvent_success_step[OF t] t by simp
  show "creates (snd (processEvent this w event 0 s)) = creates s + k + 1"
    unfolding r by (simp add: try_counts state_before_attempt_counts)
  show "[d. Delay d \<leftarrow> trace (snd (processEvent this w event 0 s))]
           = [d. Delay d \<leftarrow> trace s] @ map (\<lambda>j. 1000 * (j + 1)) [0..int k - 1]"
    unfolding r by (simp add: try_counts state_before_attempt_counts)
  show "\<exists>t n. trace (snd (processEvent this w event 0 s)) =
           t @ [Table_update (event ''airtableId'') (created_data w uev n),
                Logger_success (''Event created: '' @ ToString w (event ''title'') @ '' -> ''
                                  @ getEventUrl w (uev ''slug'')) JNull]"
  proof (cases "universe_createEvent w (creates ?sk) event")
    case (Inl e)
    from try_create_fails[OF this] t show ?thesis by simp
  next
    case (Inr uev')
    from try_create_succeeds[OF this] t have "uev' = uev"
      by (auto simp: Let_def split: option.splits)
    with try_create_succeeds[OF Inr] t
    have "trace s' = (trace ?sk @ [Universe_createEvent event]
             @ publish_effects w event uev (publishes ?sk))
           @ [Table_update (event ''airtableId'') (created_data w uev (clock_reads ?sk)),
              Logger_success (''Event created: '' @ ToString w (event ''title'') @ '' -> ''
                                @ getEventUrl w (uev ''slug'')) JNull]"
      by (auto simp: Let_def split: option.splits)
    then show ?thesis unfolding r t by (metis snd_conv)
  qed
qed

lemma processEvent_create_failures:
  assumes "0 \<le> maxRetries this"
  shows "((\<forall>j \<le> nat (maxRetries this). universe_createEvent w (creates s + j) event = Inl (err j)) \<longrightarrow>
           fst (processEvent this w event 0 s) = Inl (err (nat (maxRetries this)))
         \<and> creates (snd (processEvent this w event 0 s)) = creates s + nat (maxRetries this) + 1
         \<and> trace (snd (processEvent this w event 0 s)) =
             trace s
             @ concat (map (failed_attempt this w event) [0..maxRetries this - 1])
             @ [Universe_createEvent event,
                Table_update (event ''airtableId'')
                  (error_data w (message (err (nat (maxRetries this)))) (clock_reads s))]
             @ (case table_update w (updates s) (event ''airtableId'')
                       (error_data w (message (err (nat (maxRetries this)))) (clock_reads s)) of
                  None \<Rightarrow> []
                | Some e \<Rightarrow> [Logger_error (''Failed to mark record '' @ ToString w (event ''airtableId'')
                                             @ '' as error:'') (JStr (message e))]))
       \<and> (int k \<le> maxRetries this
          \<and> (\<forall>j < k. universe_createEvent w (creates s + j) event = Inl (err j))
          \<and> universe_createEvent w (creates s + k) event = Inr uev
          \<and> table_update w (updates s) (event ''airtableId'') (created_data w uev (clock_reads s)) = None \<longrightarrow>
           fst (processEvent this w event 0 s) = Inr uev
         \<and> creates (snd (processEvent this w event 0 s)) = creates s + k + 1
         \<and> trace (snd (processEvent this w event 0 s)) =
             trace s
             @ concat (map (failed_attempt this w event) [0..int k - 1])
             @ [Universe_createEvent event]
             @ publish_effects w event uev (publishes s)
             @ [Table_update (event ''airtableId'') (created_data w uev (clock_reads s)),
                Logger_success (''Event created: '' @ ToString w (event ''title'') @ '' -> ''
                                  @ getEventUrl w (uev ''slug'')) JNull])"
proof (intro conjI impI)
  define M where "M = maxRetries this"
  assume fails: "\<forall>j \<le> nat (maxRetries this). universe_createEvent w (creates s + j) event = Inl (err j)"
  let ?sM = "s\<lparr>creates := creates s + nat (M - 0),
               trace := trace s @ concat (map (failed_attempt this w event) [0..M - 1])\<rparr>"
  have pre: "processEvent this w event 0 s = processEvent this w event M ?sM"
    unfolding M_def
    by (rule processEvent_failing_prefix[where err = err]) (use assms fails in auto)
  have "universe_createEvent w (creates ?sM) event = Inl (err (nat M))"
    using fails by (simp add: M_def)
  from try_create_fails[OF this]
  have t: "processEvent_try w event ?sM =
             (Inl (err (nat M)), ?sM\<lparr>creates := creates ?sM + 1, trace := trace ?sM @ [Universe_createEvent event]\<rparr>)" .
  have ex: "processEvent this w event M ?sM =
     (Inl (err (nat M)),
      snd (markAsError w (event ''airtableId'') (JStr (message (err (nat M))))
             (?sM\<lparr>creates := creates ?sM + 1, trace := trace ?sM @ [Universe_createEvent event]\<rparr>)))"
    by (rule processEvent_exhausted[OF t]) (simp add: M_def)
  show "fst (processEvent this w event 0 s) = Inl (err (nat (maxRetries this)))"
    unfolding pre ex by (simp add: M_def)
  show "creates (snd (processEvent this w event 0 s)) = creates s + nat (maxRetries this) + 1"
    unfolding pre ex by (simp add: M_def markAsError_effects Let_def)
  show "trace (snd (processEvent this w event 0 s)) =
             trace s
             @ concat (map (failed_attempt this w event) [0..maxRetries this - 1])
             @ [Universe_createEvent event,
                Table_update (event ''airtableId'')
                  (error_data w (message (err (nat (maxRetries this)))) (clock_reads s))]
             @ (case table_update w (updates s) (event ''airtableId'')
                       (error_data w (message (err (nat (maxRetries this)))) (clock_reads s)) of
                  None \<Rightarrow> []
                | Some e \<Rightarrow> [Logger_error (''Failed to mark record '' @ ToString w (event ''airtableId'')
                                             @ '' as error:'') (JStr (message e))])"
    unfolding pre ex by (simp add: M_def markAsError_effects Let_def error_data_def)
next
  assume h: "int k \<le> maxRetries this
          \<and> (\<forall>j < k. universe_createEvent w (creates s + j) event = Inl (err j))
          \<and> universe_createEvent w (creates s + k) event = Inr uev
          \<and> table_update w (updates s) (event ''airtableId'') (created_data w uev (clock_reads s)) = None"
  let ?sk = "s\<lparr>creates := creates s + nat (int k - 0),
               trace := trace s @ concat (map (failed_attempt this w event) [0..int k - 1])\<rparr>"
  have pre: "processEvent this w event 0 s = processEvent this w event (int k) ?sk"
    by (rule processEvent_failing_prefix[where err = err]) (use h in auto)
  have "universe_createEvent w (creates ?sk) event = Inr uev" using h by simp
  from try_create_succeeds[OF this] h
  obtain s' where t: "processEvent_try w event ?sk = (Inr uev, s')"
    and s': "creates s' = creates s + k + 1"
      "trace s' = trace s
             @ concat (map (failed_attempt this w event) [0..int k - 1])
             @ [Universe_createEvent event]
             @ publish_effects w event uev (publishes s)
             @ [Table_update (event ''airtableId'') (created_data w uev (clock_reads s)),
                Logger_success (''Event created: '' @ ToString w (event ''title'') @ '' -> ''
                                  @ getEventUrl w (uev ''slug'')) JNull]"
    by (simp add: Let_def)
  have r: "processEvent this w event (int k) ?sk = (Inr uev, s')"
    by (rule processEvent_success_step[OF t])
  show "fst (processEvent this w event 0 s) = Inr uev" unfolding pre r by simp
  show "creates (snd (processEvent this w event 0 s)) = creates s + k + 1"
    unfolding pre r using s' by simp
  show "trace (snd (processEvent this w event 0 s)) =
             trace s
             @ concat (map (failed_attempt this w event) [0..int k - 1])
             @ [Universe_createEvent event]
             @ publish_effects w event uev (publishes s)
             @ [Table_update (event ''airtableId'') (created_data w uev (clock_reads s)),
                Logger_success (''Event created: '' @ ToString w (event ''title'') @ '' -> ''
                                  @ getEventUrl w (uev ''slug'')) JNull]"
    unfolding pre r using s' by simp
qed

lemma try_succeeds_iff:
  "fst (processEvent_try w event s) = Inr uev \<longleftrightarrow> attempt_succeeds w event s uev"
proof (cases "universe_createEvent w (creates s) event")
  case (Inl e)
  from try_create_fails[OF this] Inl show ?thesis by (simp add: attempt_succeeds_def)
next
  case (Inr u)
  from try_create_succeeds[OF this] Inr show ?thesis
    by (auto simp: attempt_succeeds_def Let_def split: option.splits)
qed

lemma try_fails_iff:
  "fst (processEvent_try w event s) = Inl e \<longleftrightarrow> attempt_fails w event s e"
proof (cases "universe_createEvent w (creates s) event")
  case (Inl e')
  from try_create_fails[OF this] Inl show ?thesis by (auto simp: attempt_fails_def)
next
  case (Inr u)
  from try_create_succeeds[OF this] Inr show ?thesis
    by (auto simp: attempt_fails_def Let_def split: option.splits)
qed

lemma processEvent_all_attempts_fail:
  assumes "0 \<le> maxRetries this"
      and "\<forall>j \<le> nat (maxRetries this).
             attempt_fails w event (state_before_attempt this w event 0 j s) (err j)"
  shows "fst (processEvent this w event 0 s) = Inl (err (nat (maxRetries this)))"
    and "creates (snd (processEvent this w event 0 s)) = creates s + nat (maxRetries this) + 1"
    and "[d. Delay d \<leftarrow> trace (snd (processEvent this w event 0 s))]
           = [d. Delay d \<leftarrow> trace s] @ map (\<lambda>j. 1000 * (j + 1)) [0..maxRetries this - 1]"
    and "\<exists>t n rest. trace (snd (processEvent this w event 0 s)) =
           t @ [Table_update (event ''airtableId'')
                  (error_data w (message (err (nat (maxRetries this)))) n)] @ rest
           \<and> length rest \<le> 1"
proof -
  define m where "m = nat (maxRetries this)"
  have mi: "int m = maxRetries this" using assms(1) by (simp add: m_def)
  let ?sm = "state_before_attempt this w event 0 m s"
  have f: "\<forall>j < m. \<exists>e. fst (processEvent_try w event (state_before_attempt this w event 0 j s)) = Inl e"
    using assms(2) unfolding try_fails_iff m_def by (meson less_imp_le)
  have pre: "processEvent this w event 0 s = processEvent this w event (0 + int m) ?sm"
    by (rule processEvent_failed_attempts[OF f]) (simp add: mi)
  have "fst (processEvent_try w event ?sm) = Inl (err m)"
    using assms(2) unfolding try_fails_iff m_def by simp
  then obtain s1 where t: "processEvent_try w event ?sm = (Inl (err m), s1)"
    by (cases "processEvent_try w event ?sm") auto
  have ex: "processEvent this w event (0 + int m) ?sm
              = (Inl (err m), snd (markAsError w (event ''airtableId'') (JStr (message (err m))) s1))"
    by (rule processEvent_exhausted[OF t]) (simp add: mi)
  have s1: "creates s1 = creates s + m + 1"
    "[d. Delay d \<leftarrow> trace s1] = [d. Delay d \<leftarrow> trace s] @ map (\<lambda>j. 1000 * (j + 1)) [0..int m - 1]"
    using try_counts[of w event ?sm] t by (simp_all add: state_before_attempt_counts)
  show "fst (processEvent this w event 0 s) = Inl (err (nat (maxRetries this)))"
    unfolding pre ex by (simp add: m_def)
  show "creates (snd (processEvent this w event 0 s)) = creates s + nat (maxRetries this) + 1"
    unfolding pre ex using s1 by (simp add: markAsError_effects Let_def m_def)
  have tr: "trace (snd (markAsError w (event ''airtableId'') (JStr (message (err m))) s1)) =
          trace s1 @ [Table_update (event ''airtableId'') (error_data w (message (err m)) (clock_reads s1))]
          @ (case table_update w (updates s1) (event ''airtableId'')
                    (error_data w (message (err m)) (clock_reads s1)) of
               None \<Rightarrow> []
             | Some e \<Rightarrow> [Logger_error (''Failed to mark record '' @ ToString w (event ''airtableId'')
                                          @ '' as error:'') (JStr (message e))])"
    by (simp add: markAsError_effects Let_def error_data_def)
  show "[d. Delay d \<leftarrow> trace (snd (processEvent this w event 0 s))]
           = [d. Delay d \<leftarrow> trace s] @ map (\<lambda>j. 1000 * (j + 1)) [0..maxRetries this - 1]"
    unfolding pre ex snd_conv tr using s1(2) mi
    by (cases "table_update w (updates s1) (event ''airtableId'')
                 (error_data w (message (err m)) (clock_reads s1))") simp_all
  have "length (case table_update w (updates s1) (event ''airtableId'')
                    (error_data w (message (err m)) (clock_reads s1)) of
               None \<Rightarrow> []
             | Some e \<Rightarrow> [Logger_error (''Failed to mark record '' @ ToString w (event ''airtableId'')
                                          @ '' as error:'') (JStr (message e))]) \<le> 1"
    by (simp split: option.splits)
  with tr show "\<exists>t n rest. trace (snd (processEvent this w event 0 s)) =
           t @ [Table_update (event ''airtableId'')
                  (error_data w (message (err (nat (maxRetries this)))) n)] @ rest
           \<and> length rest \<le> 1"
    unfolding pre ex m_def[symmetric] by (metis snd_conv)
qed

text \<open>
  C2, as stated, fails. In a world where every create call succeeds and Airtable refuses
  the first write only, with \<open>maxRetries = 2\<close>: the create step of the first attempt
  succeeds, within the budget, and a further attempt is made all the same. The record's
  \<^verbatim>\<open>processEvent\<close> makes two create calls with a timer of 1000 ms between them, and writes
  status \<^verbatim>\<open>Created\<close> twice.
\<close>

theorem retry_after_create_success_counterexample:
  "universe_createEvent
     (example_world (\<lambda>n e. Inr example_universeEvent) (\<lambda>n i. None)
        (\<lambda>n r d. if n = 0 then Some (Error ''airtable unavailable'') else None))
     (creates initial_state) example_event = Inr example_universeEvent
   \<and> fst (processEvent example_creator
       (example_world (\<lambda>n e. Inr example_universeEvent) (\<lambda>n i. None)
          (\<lambda>n r d. if n = 0 then Some (Error ''airtable unavailable'') else None))
       example_event 0 initial_state) = Inr example_universeEvent
   \<and> creates (snd (processEvent example_creator
       (example_world (\<lambda>n e. Inr example_universeEvent) (\<lambda>n i. None)
          (\<lambda>n r d. if n = 0 then Some (Error ''airtable unavailable'') else None))
       example_event 0 initial_state)) = 2
   \<and> [d. Delay d \<leftarrow> trace (snd (processEvent example_creator
       (example_world (\<lambda>n e. Inr example_universeEvent) (\<lambda>n i. None)
          (\<lambda>n r d. if n = 0 then Some (Error ''airtable unavailable'') else None))
       example_event 0 initial_state))] = [1000]
   \<and> [(r, d). Table_update r d \<leftarrow> trace (snd (processEvent example_creator
       (example_world (\<lambda>n e. Inr example_universeEvent) (\<lambda>n i. None)
          (\<lambda>n r d. if n = 0 then Some (Error ''airtable unavailable'') else None))
       example_event 0 initial_state))]
       = [(JStr ''rec001'',
           [(''status'', JStr ''Created''), (''universeEventId'', JStr ''evt1''),
            (''universeUrl'', JStr ''https://www.universe.com/jazz-night''),
            (''createdAt'', JStr ''2025-07-31''), (''lastUpdated'', JStr ''2025-07-31'')]),
          (JStr ''rec001'',
           [(''status'', JStr ''Created''), (''universeEventId'', JStr ''evt1''),
            (''universeUrl'', JStr ''https://www.universe.com/jazz-night''),
            (''createdAt'', JStr ''2025-07-31''), (''lastUpdated'', JStr ''2025-07-31'')])]"
  by (simp add: processEvent.simps processEvent_try_def call_createEvent_def call_publishEvent_def
      markAsCreated_def markAsError_def markAsError_try_def today_def call_table_update_def
      example_creator_def example_event_def example_universeEvent_def initial_state_def
      logger_info_def logger_warn_def logger_error_def logger_success_def delay_def emit_def
      getEventUrl_def retrying_message_def split_T_0_def Let_def)

text \<open>
  C2, amended. Retry exhaustion and backoff, for every record and every
  \<open>maxRetries \<ge> 0\<close>, from \<open>retryCount = 0\<close> in any state \<open>s\<close>.

  If the create step fails on every attempt (calls \<open>creates s + j\<close> for
  \<open>j \<le> maxRetries\<close>, with errors \<open>err j\<close>), \<^verbatim>\<open>processEvent\<close> makes exactly
  \<open>maxRetries + 1\<close> create calls; the \<open>k\<close>-th failed call (counting from 0) is followed
  by the retry warning and a timer of \<open>1000 * (k + 1)\<close> ms before the next call; after the
  last call comes the write of status \<^verbatim>\<open>Error\<close> with the last failure's message (cut to
  1000 characters by \<^verbatim>\<open>markAsError\<close>), and the result is that last failure.

  A successful create call does not by itself end the run. An attempt succeeds when its
  create call returns and the write of status \<^verbatim>\<open>Created\<close> that follows is accepted; it
  fails when the create call fails, and also when the create call returns and that write
  is refused. Attempt \<open>j\<close> starts in the state \<open>state_before_attempt this w event 0 j s\<close>,
  which fixes the numbers of the calls it makes.

  If attempt \<open>k \<le> maxRetries\<close> succeeds with the created event \<open>uev\<close> and the \<open>k\<close> attempts
  before it failed, for whichever of the two reasons, the run of \<^verbatim>\<open>processEvent\<close> ends
  with that attempt: the result is \<open>uev\<close>, exactly \<open>k + 1\<close> create calls were made, the
  timers were \<open>1000, 2000, \<dots>, 1000 * k\<close> ms, and the last two effects are the write of
  status \<^verbatim>\<open>Created\<close> and the success log.

  If all \<open>maxRetries + 1\<close> attempts fail, for whichever of the two reasons, with errors
  \<open>err j\<close>, then exactly \<open>maxRetries + 1\<close> create calls were made, the timers were
  \<open>1000, \<dots>, 1000 * maxRetries\<close> ms, the result is the last failure, and the last write is
  the write of status \<^verbatim>\<open>Error\<close> with that failure's message, followed by at most the log
  entry of its own failure.
\<close>

theorem processEvent_retry_and_backoff:
  assumes "0 \<le> maxRetries this"
  shows "((\<forall>j \<le> nat (maxRetries this). universe_createEvent w (creates s + j) event = Inl (err j)) \<longrightarrow>
           fst (processEvent this w event 0 s) = Inl (err (nat (maxRetries this)))
         \<and> creates (snd (processEvent this w event 0 s)) = creates s + nat (maxRetries this) + 1
         \<and> trace (snd (processEvent this w event 0 s)) =
             trace s
             @ concat (map (failed_attempt this w event) [0..maxRetries this - 1])
             @ [Universe_createEvent event,
                Table_update (event ''airtableId'')
                  (error_data w (message (err (nat (maxRetries this)))) (clock_reads s))]
             @ (case table_update w (updates s) (event ''airtableId'')
                       (error_data w (message (err (nat (maxRetries this)))) (clock_reads s)) of
                  None \<Rightarrow> []
                | Some e \<Rightarrow> [Logger_error (''Failed to mark record '' @ ToString w (event ''airtableId'')
                                             @ '' as error:'') (JStr (message e))]))
       \<and> (int k \<le> maxRetries this
          \<and> (\<forall>j < k. attempt_fails w event (state_before_attempt this w event 0 j s) (err j))
          \<and> attempt_succeeds w event (state_before_attempt this w event 0 k s) uev \<longrightarrow>
           fst (processEvent this w event 0 s) = Inr uev
         \<and> creates (snd (processEvent this w event 0 s)) = creates s + k + 1
         \<and> [d. Delay d \<leftarrow> trace (snd (processEvent this w event 0 s))]
             = [d. Delay d \<leftarrow> trace s] @ map (\<lambda>j. 1000 * (j + 1)) [0..int k - 1]
         \<and> (\<exists>t n. trace (snd (processEvent this w event 0 s)) =
               t @ [Table_update (event ''airtableId'') (created_data w uev n),
                    Logger_success (''Event created: '' @ ToString w (event ''title'') @ '' -> ''
                                      @ getEventUrl w (uev ''slug'')) JNull]))
       \<and> ((\<forall>j \<le> nat (maxRetries this).
              attempt_fails w event (state_before_attempt this w event 0 j s) (err j)) \<longrightarrow>
           fst (processEvent this w event 0 s) = Inl (err (nat (maxRetries this)))
         \<and> creates (snd (processEvent this w event 0 s)) = creates s + nat (maxRetries this) + 1
         \<and> [d. Delay d \<leftarrow> trace (snd (processEvent this w event 0 s))]
             = [d. Delay d \<leftarrow> trace s] @ map (\<lambda>j. 1000 * (j + 1)) [0..maxRetries this - 1]
         \<and> (\<exists>t n rest. trace (snd (processEvent this w event 0 s)) =
               t @ [Table_update (event ''airtableId'')
                      (error_data w (message (err (nat (maxRetries this)))) n)] @ rest
               \<and> length rest \<le> 1))"
proof -
  note A = processEvent_create_failures[OF assms, of w s event err 0 "\<lambda>k. JUndefined", THEN conjunct1]
  have C: "fst (processEvent this w event 0 s) = Inr uev
         \<and> creates (snd (processEvent this w event 0 s)) = creates s + k + 1
         \<and> [d. Delay d \<leftarrow> trace (snd (processEvent this w event 0 s))]
             = [d. Delay d \<leftarrow> trace s] @ map (\<lambda>j. 1000 * (j + 1)) [0..int k - 1]
         \<and> (\<exists>t n. trace (snd (processEvent this w event 0 s)) =
               t @ [Table_update (event ''airtableId'') (created_data w uev n),
                    Logger_success (''Event created: '' @ ToString w (event ''title'') @ '' -> ''
                                      @ getEventUrl w (uev ''slug'')) JNull])"
    if h: "int k \<le> maxRetries this
          \<and> (\<forall>j < k. attempt_fails w event (state_before_attempt this w event 0 j s) (err j))
          \<and> attempt_succeeds w event (state_before_attempt this w event 0 k s) uev"
  proof -
    from h have h1: "int k \<le> maxRetries this"
      and h2: "\<forall>j < k. \<exists>e. fst (processEvent_try w event
                                 (state_before_attempt this w event 0 j s)) = Inl e"
      and h3: "fst (processEvent_try w event (state_before_attempt this w event 0 k s)) = Inr uev"
      unfolding try_fails_iff try_succeeds_iff by blast+
    from processEvent_attempt_succeeds[OF h1 h2 h3] show ?thesis by simp
  qed
  have E: "fst (processEvent this w event 0 s) = Inl (err (nat (maxRetries this)))
         \<and> creates (snd (processEvent this w event 0 s)) = creates s + nat (maxRetries this) + 1
         \<and> [d. Delay d \<leftarrow> trace (snd (processEvent this w event 0 s))]
             = [d. Delay d \<leftarrow> trace s] @ map (\<lambda>j. 1000 * (j + 1)) [0..maxRetries this - 1]
         \<and> (\<exists>t n rest. trace (snd (processEvent this w event 0 s)) =
               t @ [Table_update (event ''airtableId'')
                      (error_data w (message (err (nat (maxRetries this)))) n)] @ rest
               \<and> length rest \<le> 1)"
    if h: "\<forall>j \<le> nat (maxRetries this).
              attempt_fails w event (state_before_attempt this w event 0 j s) (err j)"
    using processEvent_all_attempts_fail[OF assms h] by blast
  show ?thesis using A C E by blast
qed

text \<open>
  \<open>maxRetries = 2\<close>, in four worlds. A create call that always fails is made three times,
  with timers of 1000 and 2000 ms, and the record is written as \<^verbatim>\<open>Error\<close>. When the first
  two create calls fail and the third attempt succeeds, the record is fulfilled after
  three create calls and the same two timers. When every create call succeeds and only
  the first write is refused, the first attempt fails and the second succeeds: two create
  calls and one timer. When every create call succeeds and every write is refused, all
  three attempts fail: three create calls, two timers, and the result is the write error.
\<close>

theorem processEvent_retry_and_backoff_witness:
  "0 \<le> maxRetries example_creator
   \<and> universe_createEvent (example_world (\<lambda>n e. Inl (Error ''timeout'')) (\<lambda>n i. None) (\<lambda>n r d. None))
         (creates initial_state + 0) example_event = Inl (Error ''timeout'')
   \<and> universe_createEvent (example_world (\<lambda>n e. Inl (Error ''timeout'')) (\<lambda>n i. None) (\<lambda>n r d. None))
         (creates initial_state + 1) example_event = Inl (Error ''timeout'')
   \<and> universe_createEvent (example_world (\<lambda>n e. Inl (Error ''timeout'')) (\<lambda>n i. None) (\<lambda>n r d. None))
         (creates initial_state + 2) example_event = Inl (Error ''timeout'')
   \<and> fst (processEvent example_creator
             (example_world (\<lambda>n e. Inl (Error ''timeout'')) (\<lambda>n i. None) (\<lambda>n r d. None))
             example_event 0 initial_state) = Inl (Error ''timeout'')
   \<and> creates (snd (processEvent example_creator
             (example_world (\<lambda>n e. Inl (Error ''timeout'')) (\<lambda>n i. None) (\<lambda>n r d. None))
             example_event 0 initial_state)) = 3
   \<and> [d. Delay d \<leftarrow> trace (snd (processEvent example_creator
             (example_world (\<lambda>n e. Inl (Error ''timeout'')) (\<lambda>n i. None) (\<lambda>n r d. None))
             example_event 0 initial_state))] = [1000, 2000]
   \<and> [(r, d). Table_update r d \<leftarrow> trace (snd (processEvent example_creator
             (example_world (\<lambda>n e. Inl (Error ''timeout'')) (\<lambda>n i. None) (\<lambda>n r d. None))
             example_event 0 initial_state))]
       = [(JStr ''rec001'', [(''status'', JStr ''Error''), (''errorMessage'', JStr ''timeout''),
                             (''lastUpdated'', JStr ''2025-07-31'')])]
   \<and> int 2 \<le> maxRetries example_creator
   \<and> attempt_fails
         (example_world (\<lambda>n e. if n < 2 then Inl (Error ''timeout'') else Inr example_universeEvent)
            (\<lambda>n i. None) (\<lambda>n r d. None))
         example_event
         (state_before_attempt example_creator
            (example_world (\<lambda>n e. if n < 2 then Inl (Error ''timeout'') else Inr example_universeEvent)
               (\<lambda>n i. None) (\<lambda>n r d. None))
            example_event 0 0 initial_state) (Error ''timeout'')
   \<and> attempt_fails
         (example_world (\<lambda>n e. if n < 2 then Inl (Error ''timeout'') else Inr example_universeEvent)
            (\<lambda>n i. None) (\<lambda>n r d. None))
         example_event
         (state_before_attempt example_creator
            (example_world (\<lambda>n e. if n < 2 then Inl (Error ''timeout'') else Inr example_universeEvent)
               (\<lambda>n i. None) (\<lambda>n r d. None))
            example_event 0 1 initial_state) (Error ''timeout'')
   \<and> attempt_succeeds
         (example_world (\<lambda>n e. if n < 2 then Inl (Error ''timeout'') else Inr example_universeEvent)
            (\<lambda>n i. None) (\<lambda>n r d. None))
         example_event
         (state_before_attempt example_creator
            (example_world (\<lambda>n e. if n < 2 then Inl (Error ''timeout'') else Inr example_universeEvent)
               (\<lambda>n i. None) (\<lambda>n r d. None))
            example_event 0 2 initial_state) example_universeEvent
   \<and> fst (processEvent example_creator
         (example_world (\<lambda>n e. if n < 2 then Inl (Error ''timeout'') else Inr example_universeEvent)
            (\<lambda>n i. None) (\<lambda>n r d. None))
         example_event 0 initial_state) = Inr example_universeEvent
   \<and> creates (snd (processEvent example_creator
         (example_world (\<lambda>n e. if n < 2 then Inl (Error ''timeout'') else Inr example_universeEvent)
            (\<lambda>n i. None) (\<lambda>n r d. None))
         example_event 0 initial_state)) = 3
   \<and> [d. Delay d \<leftarrow> trace (snd (processEvent example_creator
         (example_world (\<lambda>n e. if n < 2 then Inl (Error ''timeout'') else Inr example_universeEvent)
            (\<lambda>n i. None) (\<lambda>n r d. None))
         example_event 0 initial_state))] = [1000, 2000]
   \<and> int 1 \<le> maxRetries example_creator
   \<and> attempt_fails
         (example_world (\<lambda>n e. Inr example_universeEvent) (\<lambda>n i. None)
            (\<lambda>n r d. if n = 0 then Some (Error ''airtable unavailable'') else None))
         example_event
         (state_before_attempt example_creator
            (example_world (\<lambda>n e. Inr example_universeEvent) (\<lambda>n i. None)
               (\<lambda>n r d. if n = 0 then Some (Error ''airtable unavailable'') else None))
            example_event 0 0 initial_state) (Error ''airtable unavailable'')
   \<and> attempt_succeeds
         (example_world (\<lambda>n e. Inr example_universeEvent) (\<lambda>n i. None)
            (\<lambda>n r d. if n = 0 then Some (Error ''airtable unavailable'') else None))
         example_event
         (state_before_attempt example_creator
            (example_world (\<lambda>n e. Inr example_universeEvent) (\<lambda>n i. None)
               (\<lambda>n r d. if n = 0 then Some (Error ''airtable unavailable'') else None))
            example_event 0 1 initial_state) example_universeEvent
   \<and> fst (processEvent example_creator
         (example_world (\<lambda>n e. Inr example_universeEvent) (\<lambda>n i. None)
            (\<lambda>n r d. if n = 0 then Some (Error ''airtable unavailable'') else None))
         example_event 0 initial_state) = Inr example_universeEvent
   \<and> creates (snd (processEvent example_creator
         (example_world (\<lambda>n e. Inr example_universeEvent) (\<lambda>n i. None)
            (\<lambda>n r d. if n = 0 then Some (Error ''airtable unavailable'') else None))
         example_event 0 initial_state)) = 2
   \<and> [d. Delay d \<leftarrow> trace (snd (processEvent example_creator
         (example_world (\<lambda>n e. Inr example_universeEvent) (\<lambda>n i. None)
            (\<lambda>n r d. if n = 0 then Some (Error ''airtable unavailable'') else None))
         example_event 0 initial_state))] = [1000]
   \<and> attempt_fails
         (example_world (\<lambda>n e. Inr example_universeEvent) (\<lambda>n i. None)
            (\<lambda>n r d. Some (Error ''airtable unavailable'')))
         example_event
         (state_before_attempt example_creator
            (example_world (\<lambda>n e. Inr example_universeEvent) (\<lambda>n i. None)
               (\<lambda>n r d. Some (Error ''airtable unavailable'')))
            example_event 0 0 initial_state) (Error ''airtable unavailable'')
   \<and> attempt_fails
         (example_world (\<lambda>n e. Inr example_universeEvent) (\<lambda>n i. None)
            (\<lambda>n r d. Some (Error ''airtable unavailable'')))
         example_event
         (state_before_attempt example_creator
            (example_world (\<lambda>n e. Inr example_universeEvent) (\<lambda>n i. None)
               (\<lambda>n r d. Some (Error ''airtable unavailable'')))
            example_event 0 1 initial_state) (Error ''airtable unavailable'')
   \<and> attempt_fails
         (example_world (\<lambda>n e. Inr example_universeEvent) (\<lambda>n i. None)
            (\<lambda>n r d. Some (Error ''airtable unavailable'')))
         example_event
         (state_before_attempt example_creator
            (example_world (\<lambda>n e. Inr example_universeEvent) (\<lambda>n i. None)
               (\<lambda>n r d. Some (Error ''airtable unavailable'')))
            example_event 0 2 initial_state) (Error ''airtable unavailable'')
   \<and> fst (processEvent example_creator
         (example_world (\<lambda>n e. Inr example_universeEvent) (\<lambda>n i. None)
            (\<lambda>n r d. Some (Error ''airtable unavailable'')))
         example_event 0 initial_state) = Inl (Error ''airtable unavailable'')
   \<and> creates (snd (processEvent example_creator
         (example_world (\<lambda>n e. Inr example_universeEvent) (\<lambda>n i. None)
            (\<lambda>n r d. Some (Error ''airtable unavailable'')))
         example_event 0 initial_state)) = 3
   \<and> [d. Delay d \<leftarrow> trace (snd (processEvent example_creator
         (example_world (\<lambda>n e. Inr example_universeEvent) (\<lambda>n i. None)
            (\<lambda>n r d. Some (Error ''airtable unavailable'')))
         example_event 0 initial_state))] = [1000, 2000]"
proof -
  let ?w1 = "example_world (\<lambda>n e. Inl (Error ''timeout'')) (\<lambda>n i. None) (\<lambda>n r d. None)"
  let ?w2 = "example_world (\<lambda>n e. if n < 2 then Inl (Error ''timeout'') else Inr example_universeEvent)
            (\<lambda>n i. None) (\<lambda>n r d. None)"
  let ?w3 = "example_world (\<lambda>n e. Inr example_universeEvent) (\<lambda>n i. None)
            (\<lambda>n r d. if n = 0 then Some (Error ''airtable unavailable'') else None)"
  let ?w4 = "example_world (\<lambda>n e. Inr example_universeEvent) (\<lambda>n i. None)
            (\<lambda>n r d. Some (Error ''airtable unavailable''))"
  have m: "0 \<le> maxRetries example_creator" by (simp add: example_creator_def)
  have m2: "nat (maxRetries example_creator) = 2" "maxRetries example_creator = 2"
    by (simp_all add: example_creator_def)
  have up: "[0..(1::int)] = [0, 1]" "[0..(0::int)] = [0]"
    by (simp_all add: upto_rec1)
  have h1: "universe_createEvent ?w1 (creates initial_state + 0) example_event = Inl (Error ''timeout'')"
    "universe_createEvent ?w1 (creates initial_state + 1) example_event = Inl (Error ''timeout'')"
    "universe_createEvent ?w1 (creates initial_state + 2) example_event = Inl (Error ''timeout'')"
    by simp_all
  have k2: "int 2 \<le> maxRetries example_creator" and k1: "int 1 \<le> maxRetries example_creator"
    by (simp_all add: example_creator_def)
  have f2: "attempt_fails ?w2 example_event
              (state_before_attempt example_creator ?w2 example_event 0 j initial_state)
              (Error ''timeout'')" if "j < 2" for j
    using that by (simp add: attempt_fails_def state_before_attempt_counts initial_state_def)
  have h2: "attempt_fails ?w2 example_event
              (state_before_attempt example_creator ?w2 example_event 0 0 initial_state)
              (Error ''timeout'')"
    "attempt_fails ?w2 example_event
              (state_before_attempt example_creator ?w2 example_event 0 1 initial_state)
              (Error ''timeout'')"
    using f2[of 0] f2[of 1] by simp_all
  have s2: "attempt_succeeds ?w2 example_event
              (state_before_attempt example_creator ?w2 example_event 0 2 initial_state)
              example_universeEvent"
    by (simp add: attempt_succeeds_def state_before_attempt_counts initial_state_def)
  have c3: "universe_createEvent ?w3 (creates initial_state) example_event = Inr example_universeEvent"
    by simp
  have h3: "attempt_fails ?w3 example_event
              (state_before_attempt example_creator ?w3 example_event 0 0 initial_state)
              (Error ''airtable unavailable'')"
    by (simp add: attempt_fails_def initial_state_def)
  have u3: "updates (state_before_attempt example_creator ?w3 example_event 0 1 initial_state) = 1"
    using try_create_succeeds[OF c3]
    by (simp add: Let_def delay_def logger_warn_def emit_def initial_state_def)
  have s3: "attempt_succeeds ?w3 example_event
              (state_before_attempt example_creator ?w3 example_event 0 1 initial_state)
              example_universeEvent"
    unfolding attempt_succeeds_def u3 by simp
  have f4: "attempt_fails ?w4 example_event
              (state_before_attempt example_creator ?w4 example_event 0 j initial_state)
              (Error ''airtable unavailable'')" for j
    by (simp add: attempt_fails_def)
  have h4: "attempt_fails ?w4 example_event
              (state_before_attempt example_creator ?w4 example_event 0 0 initial_state)
              (Error ''airtable unavailable'')"
    "attempt_fails ?w4 example_event
              (state_before_attempt example_creator ?w4 example_event 0 1 initial_state)
              (Error ''airtable unavailable'')"
    "attempt_fails ?w4 example_event
              (state_before_attempt example_creator ?w4 example_event 0 2 initial_state)
              (Error ''airtable unavailable'')"
    by (rule f4)+
  note T1 = processEvent_retry_and_backoff[OF m, of ?w1 initial_state example_event
      "\<lambda>j. Error ''timeout''" 0 example_universeEvent]
  note T2 = processEvent_retry_and_backoff[OF m, of ?w2 initial_state example_event
      "\<lambda>j. Error ''timeout''" 2 example_universeEvent]
  note T3 = processEvent_retry_and_backoff[OF m, of ?w3 initial_state example_event
      "\<lambda>j. Error ''airtable unavailable''" 1 example_universeEvent]
  note T4 = processEvent_retry_and_backoff[OF m, of ?w4 initial_state example_event
      "\<lambda>j. Error ''airtable unavailable''" 0 example_universeEvent]
  from T1 have a: "fst (processEvent example_creator ?w1 example_event 0 initial_state) = Inl (Error ''timeout'')"
     "creates (snd (processEvent example_creator ?w1 example_event 0 initial_state)) = 3"
     "[d. Delay d \<leftarrow> trace (snd (processEvent example_creator ?w1 example_event 0 initial_state))] = [1000, 2000]"
     "[(r, d). Table_update r d \<leftarrow> trace (snd (processEvent example_creator ?w1 example_event 0 initial_state))]
       = [(JStr ''rec001'', [(''status'', JStr ''Error''), (''errorMessage'', JStr ''timeout''),
                             (''lastUpdated'', JStr ''2025-07-31'')])]"
    by (simp_all add: up initial_state_def example_creator_def failed_attempt_def error_data_def
          example_event_def split_T_0_def)
  have all2: "\<forall>j < 2. attempt_fails ?w2 example_event
                (state_before_attempt example_creator ?w2 example_event 0 j initial_state)
                (Error ''timeout'')"
    using f2 by blast
  from T2 k2 all2 s2
  have b0: "fst (processEvent example_creator ?w2 example_event 0 initial_state) = Inr example_universeEvent"
    and b1: "creates (snd (processEvent example_creator ?w2 example_event 0 initial_state))
               = creates initial_state + 2 + 1"
    and b2: "[d. Delay d \<leftarrow> trace (snd (processEvent example_creator ?w2 example_event 0 initial_state))]
             = [d. Delay d \<leftarrow> trace initial_state] @ map (\<lambda>j. 1000 * (j + 1)) [0..int 2 - 1]"
    by blast+
  have b: "fst (processEvent example_creator ?w2 example_event 0 initial_state) = Inr example_universeEvent"
    "creates (snd (processEvent example_creator ?w2 example_event 0 initial_state)) = 3"
    "[d. Delay d \<leftarrow> trace (snd (processEvent example_creator ?w2 example_event 0 initial_state))]
       = [1000, 2000]"
    using b0 b1 b2 by (simp_all add: initial_state_def up)
  have all3: "\<forall>j < 1. attempt_fails ?w3 example_event
                (state_before_attempt example_creator ?w3 example_event 0 j initial_state)
                (Error ''airtable unavailable'')"
    using h3 by simp
  from T3 k1 all3 s3
  have c0: "fst (processEvent example_creator ?w3 example_event 0 initial_state) = Inr example_universeEvent"
    and c1: "creates (snd (processEvent example_creator ?w3 example_event 0 initial_state))
               = creates initial_state + 1 + 1"
    and c2: "[d. Delay d \<leftarrow> trace (snd (processEvent example_creator ?w3 example_event 0 initial_state))]
             = [d. Delay d \<leftarrow> trace initial_state] @ map (\<lambda>j. 1000 * (j + 1)) [0..int 1 - 1]"
    by blast+
  have c: "fst (processEvent example_creator ?w3 example_event 0 initial_state) = Inr example_universeEvent"
    "creates (snd (processEvent example_creator ?w3 example_event 0 initial_state)) = 2"
    "[d. Delay d \<leftarrow> trace (snd (processEvent example_creator ?w3 example_event 0 initial_state))]
       = [1000]"
    using c0 c1 c2 by (simp_all add: initial_state_def up)
  have all4: "\<forall>j \<le> nat (maxRetries example_creator). attempt_fails ?w4 example_event
                (state_before_attempt example_creator ?w4 example_event 0 j initial_state)
                (Error ''airtable unavailable'')"
    using f4 by blast
  from T4 all4
  have d0: "fst (processEvent example_creator ?w4 example_event 0 initial_state)
              = Inl (Error ''airtable unavailable'')"
    and d1: "creates (snd (processEvent example_creator ?w4 example_event 0 initial_state))
               = creates initial_state + nat (maxRetries example_creator) + 1"
    and d2: "[d. Delay d \<leftarrow> trace (snd (processEvent example_creator ?w4 example_event 0 initial_state))]
             = [d. Delay d \<leftarrow> trace initial_state]
               @ map (\<lambda>j. 1000 * (j + 1)) [0..maxRetries example_creator - 1]"
    by blast+
  have d: "fst (processEvent example_creator ?w4 example_event 0 initial_state)
              = Inl (Error ''airtable unavailable'')"
    "creates (snd (processEvent example_creator ?w4 example_event 0 initial_state)) = 3"
    "[d. Delay d \<leftarrow> trace (snd (processEvent example_creator ?w4 example_event 0 initial_state))]
       = [1000, 2000]"
    using d0 d1 d2 by (simp_all add: initial_state_def up m2)
  show ?thesis
    by (intro conjI) (fact m h1 a k2 h2 s2 b k1 h3 s3 c h4 d)+
qed



text \<open>
  C1, as stated, fails. In a world where every create call succeeds and Airtable rejects
  every write, with \<open>maxRetries = 2\<close>: the first create call succeeds, the record's
  \<^verbatim>\<open>processEvent\<close> nevertheless makes three create calls, separated by timers of 1000 and
  2000 ms, and ends rejected with the persistence error.
\<close>

theorem persistence_failure_counterexample:
  "universe_createEvent
     (example_world (\<lambda>n e. Inr example_universeEvent) (\<lambda>n i. None)
        (\<lambda>n r d. Some (Error ''airtable unavailable'')))
     (creates initial_state) example_event = Inr example_universeEvent
   \<and> fst (processEvent example_creator
       (example_world (\<lambda>n e. Inr example_universeEvent) (\<lambda>n i. None)
          (\<lambda>n r d. Some (Error ''airtable unavailable'')))
       example_event 0 initial_state) = Inl (Error ''airtable unavailable'')
   \<and> creates (snd (processEvent example_creator
       (example_world (\<lambda>n e. Inr example_universeEvent) (\<lambda>n i. None)
          (\<lambda>n r d. Some (Error ''airtable unavailable'')))
       example_event 0 initial_state)) = 3
   \<and> [d. Delay d \<leftarrow> trace (snd (processEvent example_creator
       (example_world (\<lambda>n e. Inr example_universeEvent) (\<lambda>n i. None)
          (\<lambda>n r d. Some (Error ''airtable unavailable'')))
       example_event 0 initial_state))] = [1000, 2000]"
  by (simp add: processEvent.simps processEvent_try_def call_createEvent_def call_publishEvent_def
      markAsCreated_def markAsError_def markAsError_try_def today_def call_table_update_def
      example_creator_def example_event_def example_universeEvent_def initial_state_def
      logger_info_def logger_warn_def logger_error_def logger_success_def delay_def emit_def
      getEventUrl_def retrying_message_def split_T_0_def Let_def)

text \<open>
  C1, amended. For every record whose create call succeeds, if the write of status
  \<^verbatim>\<open>Created\<close> that follows fails with \<open>e\<close>, then \<^verbatim>\<open>markAsCreated\<close> logs the failure and the
  \<^verbatim>\<open>try\<close> block of \<^verbatim>\<open>processEvent\<close> fails with \<open>e\<close>. While \<open>retryCount < maxRetries\<close>
  the \<^verbatim>\<open>catch\<close> retries the record: the retry warning, the timer of
  \<open>1000 * (retryCount + 1)\<close> ms and a new create call follow. Once the retries are
  exhausted the record is written as \<^verbatim>\<open>Error\<close> with the message of \<open>e\<close>,
  \<^verbatim>\<open>processEvent\<close> is rejected with \<open>e\<close>, and the tally of the batch counts the record as
  an error.
\<close>

theorem persistence_failure_enters_retry:
  assumes "universe_createEvent w (creates s) event = Inr uev"
      and "table_update w (updates s) (event ''airtableId'') (created_data w uev (clock_reads s)) = Some e"
  shows "fst (processEvent_try w event s) = Inl e
       \<and> trace (snd (processEvent_try w event s)) =
           trace s @ [Universe_createEvent event] @ publish_effects w event uev (publishes s)
           @ [Table_update (event ''airtableId'') (created_data w uev (clock_reads s)),
              Logger_error (''Failed to mark record '' @ ToString w (event ''airtableId'')
                              @ '' as created:'') (JStr (message e))]
       \<and> (retryCount < maxRetries this \<longrightarrow>
            (\<exists>rest. trace (snd (processEvent this w event retryCount s)) =
               trace (snd (processEvent_try w event s))
               @ [Logger_warn (retrying_message this w event retryCount) JNull,
                  Delay (1000 * (retryCount + 1)),
                  Universe_createEvent event]
               @ rest))
       \<and> (\<not> retryCount < maxRetries this \<longrightarrow>
            fst (processEvent this w event retryCount s) = Inl e
          \<and> (\<exists>rest. trace (snd (processEvent this w event retryCount s)) =
               trace (snd (processEvent_try w event s))
               @ [Table_update (event ''airtableId'') (error_data w (message e) (clock_reads s + 2))]
               @ rest)
          \<and> fst (processBatch_tally w [(event, fst (processEvent this w event retryCount s))] (0, 0) s0)
              = (0, 1))"
proof -
  from try_create_succeeds[OF assms(1)] assms(2)
  obtain s1 where t: "processEvent_try w event s = (Inl e, s1)"
    and s1: "trace s1 = trace s @ [Universe_createEvent event] @ publish_effects w event uev (publishes s)
           @ [Table_update (event ''airtableId'') (created_data w uev (clock_reads s)),
              Logger_error (''Failed to mark record '' @ ToString w (event ''airtableId'')
                              @ '' as created:'') (JStr (message e))]"
      "clock_reads s1 = clock_reads s + 2"
    by (simp add: Let_def)
  have a: "fst (processEvent_try w event s) = Inl e" using t by simp
  have b: "trace (snd (processEvent_try w event s)) =
           trace s @ [Universe_createEvent event] @ publish_effects w event uev (publishes s)
           @ [Table_update (event ''airtableId'') (created_data w uev (clock_reads s)),
              Logger_error (''Failed to mark record '' @ ToString w (event ''airtableId'')
                              @ '' as created:'') (JStr (message e))]"
    using t s1 by simp
  have c: "\<exists>rest. trace (snd (processEvent this w event retryCount s)) =
               trace (snd (processEvent_try w event s))
               @ [Logger_warn (retrying_message this w event retryCount) JNull,
                  Delay (1000 * (retryCount + 1)),
                  Universe_createEvent event]
               @ rest" if lt: "retryCount < maxRetries this"
  proof -
    let ?s2 = "delay (1000 * (retryCount + 1)) (logger_warn (retrying_message this w event retryCount) JNull s1)"
    have step: "processEvent this w event retryCount s = processEvent this w event (retryCount + 1) ?s2"
      by (rule processEvent_retry_step[OF t lt])
    obtain res s3 where t2: "processEvent_try w event ?s2 = (res, s3)"
      by (cases "processEvent_try w event ?s2")
    have "\<exists>t3. trace s3 = trace ?s2 @ [Universe_createEvent event] @ t3"
    proof (cases "universe_createEvent w (creates ?s2) event")
      case (Inl e')
      from try_create_fails[OF this] t2 show ?thesis by auto
    next
      case (Inr uev')
      from try_create_succeeds[OF this] t2 show ?thesis
        by (auto simp: Let_def split: option.splits)
    qed
    then obtain t3 where t3: "trace s3 = trace ?s2 @ [Universe_createEvent event] @ t3" by blast
    have "\<exists>t4. trace (snd (processEvent this w event (retryCount + 1) ?s2)) = trace s3 @ t4"
    proof (cases res)
      case (Inr v)
      then show ?thesis using processEvent_success_step[of w event ?s2 v s3] t2 by simp
    next
      case (Inl e')
      show ?thesis
      proof (cases "retryCount + 1 < maxRetries this")
        case True
        from processEvent_retry_step[OF t2[unfolded Inl] True]
             processEvent_trace_extends[of this w event "retryCount + 1 + 1"
               "delay (1000 * (retryCount + 1 + 1)) (logger_warn (retrying_message this w event (retryCount + 1)) JNull s3)"]
        show ?thesis by (auto simp: delay_def logger_warn_def emit_def)
      next
        case False
        from processEvent_exhausted[OF t2[unfolded Inl] False]
             markAsError_trace_extends[of w "event ''airtableId''" "message e'" s3]
        show ?thesis by auto
      qed
    qed
    then show ?thesis unfolding step using t3 t
      by (auto simp: delay_def logger_warn_def emit_def)
  qed
  have d: "fst (processEvent this w event retryCount s) = Inl e
          \<and> (\<exists>rest. trace (snd (processEvent this w event retryCount s)) =
               trace (snd (processEvent_try w event s))
               @ [Table_update (event ''airtableId'') (error_data w (message e) (clock_reads s + 2))]
               @ rest)
          \<and> fst (processBatch_tally w [(event, fst (processEvent this w event retryCount s))] (0, 0) s0)
              = (0, 1)" if ge: "\<not> retryCount < maxRetries this"
    unfolding processEvent_exhausted[OF t ge]
    using t s1 by (simp add: markAsError_effects Let_def error_data_def)
  show ?thesis using a b c d by blast
qed

text \<open>
  The world of the counterexample, at \<open>retryCount = 0\<close> (retried) and at
  \<open>retryCount = 2 = maxRetries\<close> (given up, counted as an error).
\<close>

theorem persistence_failure_enters_retry_witness:
  "universe_createEvent
     (example_world (\<lambda>n e. Inr example_universeEvent) (\<lambda>n i. None)
        (\<lambda>n r d. Some (Error ''airtable unavailable'')))
     (creates initial_state) example_event = Inr example_universeEvent
   \<and> table_update
       (example_world (\<lambda>n e. Inr example_universeEvent) (\<lambda>n i. None)
          (\<lambda>n r d. Some (Error ''airtable unavailable'')))
       (updates initial_state) (example_event ''airtableId'')
       (created_data
          (example_world (\<lambda>n e. Inr example_universeEvent) (\<lambda>n i. None)
             (\<lambda>n r d. Some (Error ''airtable unavailable'')))
          example_universeEvent (clock_reads initial_state))
       = Some (Error ''airtable unavailable'')
   \<and> 0 < maxRetries example_creator
   \<and> (\<exists>rest. trace (snd (processEvent example_creator
          (example_world (\<lambda>n e. Inr example_universeEvent) (\<lambda>n i. None)
             (\<lambda>n r d. Some (Error ''airtable unavailable'')))
          example_event 0 initial_state)) =
        [Universe_createEvent example_event,
         Universe_publishEvent (JStr ''evt1''),
         Logger_info ''Event published: Jazz Night'' JNull,
         Table_update (JStr ''rec001'')
           [(''status'', JStr ''Created''), (''universeEventId'', JStr ''evt1''),
            (''universeUrl'', JStr ''https://www.universe.com/jazz-night''),
            (''createdAt'', JStr ''2025-07-31''), (''lastUpdated'', JStr ''2025-07-31'')],
         Logger_error ''Failed to mark record rec001 as created:'' (JStr ''airtable unavailable''),
         Logger_warn ''Retrying event Jazz Night (attempt 1/3)'' JNull,
         Delay 1000,
         Universe_createEvent example_event] @ rest)
   \<and> \<not> 2 < maxRetries example_creator
   \<and> fst (processEvent example_creator
          (example_world (\<lambda>n e. Inr example_universeEvent) (\<lambda>n i. None)
             (\<lambda>n r d. Some (Error ''airtable unavailable'')))
          example_event 2 initial_state) = Inl (Error ''airtable unavailable'')
   \<and> fst (processBatch_tally
          (example_world (\<lambda>n e. Inr example_universeEvent) (\<lambda>n i. None)
             (\<lambda>n r d. Some (Error ''airtable unavailable'')))
          [(example_event, fst (processEvent example_creator
             (example_world (\<lambda>n e. Inr example_universeEvent) (\<lambda>n i. None)
                (\<lambda>n r d. Some (Error ''airtable unavailable'')))
             example_event 2 initial_state))] (0, 0) initial_state) = (0, 1)"
proof -
  let ?w = "example_world (\<lambda>n e. Inr example_universeEvent) (\<lambda>n i. None)
              (\<lambda>n r d. Some (Error ''airtable unavailable''))"
  have h1: "universe_createEvent ?w (creates initial_state) example_event = Inr example_universeEvent"
    by simp
  have h2: "table_update ?w (updates initial_state) (example_event ''airtableId'')
              (created_data ?w example_universeEvent (clock_reads initial_state))
            = Some (Error ''airtable unavailable'')"
    by simp
  have m0: "0 < maxRetries example_creator" and m2: "\<not> 2 < maxRetries example_creator"
    by (simp_all add: example_creator_def)
  have n1: "show_nat (Suc 0) = ''1''" "show_nat 3 = ''3''"
    by (simp_all add: show_nat.simps)
  note T0 = persistence_failure_enters_retry[OF h1 h2, of 0 example_creator initial_state]
  note T2 = persistence_failure_enters_retry[OF h1 h2, of 2 example_creator initial_state]
  have pe: "publish_effects ?w example_event example_universeEvent (publishes initial_state)
              = [Universe_publishEvent (JStr ''evt1''), Logger_info ''Event published: Jazz Night'' JNull]"
    by (simp add: publish_effects_def example_event_def example_universeEvent_def)
  have cd: "created_data ?w example_universeEvent (clock_reads initial_state)
              = [(''status'', JStr ''Created''), (''universeEventId'', JStr ''evt1''),
                 (''universeUrl'', JStr ''https://www.universe.com/jazz-night''),
                 (''createdAt'', JStr ''2025-07-31''), (''lastUpdated'', JStr ''2025-07-31'')]"
    by (simp add: created_data_def getEventUrl_def split_T_0_def example_universeEvent_def)
  have rm: "retrying_message example_creator ?w example_event 0 = ''Retrying event Jazz Night (attempt 1/3)''"
    by (simp add: retrying_message_def n1 example_event_def example_creator_def)
  have ids: "example_event ''airtableId'' = JStr ''rec001''" "ToString ?w (JStr ''rec001'') = ''rec001''"
    by (simp_all add: example_event_def)
  from T0 m0 obtain rest where
    r: "trace (snd (processEvent example_creator ?w example_event 0 initial_state)) =
          trace (snd (processEvent_try ?w example_event initial_state))
          @ [Logger_warn (retrying_message example_creator ?w example_event 0) JNull,
             Delay (1000 * (0 + 1)), Universe_createEvent example_event] @ rest"
    and t: "trace (snd (processEvent_try ?w example_event initial_state)) =
           trace initial_state @ [Universe_createEvent example_event]
           @ publish_effects ?w example_event example_universeEvent (publishes initial_state)
           @ [Table_update (example_event ''airtableId'')
                (created_data ?w example_universeEvent (clock_reads initial_state)),
              Logger_error (''Failed to mark record '' @ ToString ?w (example_event ''airtableId'')
                              @ '' as created:'') (JStr (message (Error ''airtable unavailable'')))]"
    by blast
  have a: "\<exists>rest. trace (snd (processEvent example_creator ?w example_event 0 initial_state)) =
        [Universe_createEvent example_event,
         Universe_publishEvent (JStr ''evt1''),
         Logger_info ''Event published: Jazz Night'' JNull,
         Table_update (JStr ''rec001'')
           [(''status'', JStr ''Created''), (''universeEventId'', JStr ''evt1''),
            (''universeUrl'', JStr ''https://www.universe.com/jazz-night''),
            (''createdAt'', JStr ''2025-07-31''), (''lastUpdated'', JStr ''2025-07-31'')],
         Logger_error ''Failed to mark record rec001 as created:'' (JStr ''airtable unavailable''),
         Logger_warn ''Retrying event Jazz Night (attempt 1/3)'' JNull,
         Delay 1000,
         Universe_createEvent example_event] @ rest"
    unfolding r t pe cd rm ids by (simp add: initial_state_def)
  from T2 m2 have b: "fst (processEvent example_creator ?w example_event 2 initial_state)
                        = Inl (Error ''airtable unavailable'')"
    "fst (processBatch_tally ?w
          [(example_event, fst (processEvent example_creator ?w example_event 2 initial_state))]
          (0, 0) initial_state) = (0, 1)"
    by simp_all
  show ?thesis
    by (intro conjI) (fact h1 h2 m0 a m2 b)+
qed

subsection \<open>The validator\<close>

lemma mem_push_if: "x \<in> set (push_if c y ys) \<longleftrightarrow> (c \<and> x = y) \<or> x \<in> set ys"
  by (simp add: push_if_def)

lemma split_hour_min_string: "\<exists>h m. split_hour_min field (JStr s) = Inr (h, m)"
  by (cases "js_split (CHR '':'') s" rule: list.exhaust[case_product list.exhaust])
     (auto split: list.splits)

lemma validate_dates_strings:
  assumes "eventData ''startTime'' = JStr startTime" "eventData ''endTime'' = JStr endTime"
  shows "\<exists>errs' warns'. validate_dates rt eventData errs warns = Inr (errs', warns')
           \<and> (''Start time must be in HH:MM format (e.g., 19:30)'' \<in> set errs'
                \<longleftrightarrow> ''Start time must be in HH:MM format (e.g., 19:30)'' \<in> set errs
                     \<or> \<not> timeRegex_match startTime)
           \<and> (''End time must be in HH:MM format (e.g., 22:00)'' \<in> set errs'
                \<longleftrightarrow> ''End time must be in HH:MM format (e.g., 22:00)'' \<in> set errs
                     \<or> \<not> timeRegex_match endTime)
           \<and> set errs \<subseteq> set errs'"
proof -
  obtain sh sm where s: "split_hour_min ''startTime'' (JStr startTime) = Inr (sh, sm)"
    using split_hour_min_string by blast
  obtain eh em where e: "split_hour_min ''endTime'' (JStr endTime) = Inr (eh, em)"
    using split_hour_min_string by blast
  show ?thesis
    unfolding validate_dates_def assms s e
    by (auto simp: timeRegex_test_def Let_def mem_push_if simp del: split_hour_min.simps)
qed

lemma optional_trim_returns:
  assumes "nullish_or_string v"
  shows "\<exists>t. optional_trim field v = Inr t"
  using assms by (cases v) auto

lemma example_dates:
  "Date_new example_runtime (JStr ''2025-08-01'') = Some 1754006400000"
  "Date_setHours example_runtime 1754006400000 19 30 = Some 1754076600000"
  "Date_setHours example_runtime 1754006400000 9 0 = Some 1754038800000"
  "Date_setHours example_runtime 1754006400000 22 0 = Some 1754085600000"
  "Date_setHours example_runtime (Date_now example_runtime 0) 0 0 = Some 1753920000000"
  by (simp_all add: example_runtime_def)

lemma example_times:
  "split_hour_min f (JStr ''19:30'') = Inr (19, 30)"
  "split_hour_min f (JStr ''9:00'') = Inr (9, 0)"
  "split_hour_min f (JStr ''22:00'') = Inr (22, 0)"
  by (simp_all add: Number_of_digits_def)

lemma validate_dates_example:
  "validate_dates example_runtime example_event errs warns = Inr (errs, warns)"
  "validate_dates example_runtime (example_event(''privacy'' := v)) errs warns = Inr (errs, warns)"
  "validate_dates example_runtime (example_event(''capacity'' := v)) errs warns = Inr (errs, warns)"
  "validate_dates example_runtime (example_event(''startTime'' := JStr ''9:00'')) errs warns
     = Inr (errs, warns)"
  by (simp_all add: validate_dates_def example_event_def timeRegex_test_def example_dates
        example_times push_if_def Let_def del: split_hour_min.simps)

lemma validateEvent_example_required:
  "optional_trim f (JStr ''Jazz Night'') = Inr (JStr ''Jazz Night'')"
  "optional_trim f (JStr ''1 Main St'') = Inr (JStr ''1 Main St'')"
  "optional_trim f (JStr ''The Hall'') = Inr (JStr ''The Hall'')"
  "optional_trim f (JStr ''Toronto'') = Inr (JStr ''Toronto'')"
  by (simp_all add: js_trim_def is_white_space_def)

text \<open>
  C3, as stated, fails for \<^verbatim>\<open>"9:00"\<close>: the regular expression makes the first digit of
  the hour optional, so a record whose start time is \<^verbatim>\<open>"9:00"\<close> passes the validator with
  no error at all.
\<close>

theorem single_digit_hour_counterexample:
  "timeRegex_match ''9:00''
   \<and> validateEvent example_runtime (example_event(''startTime'' := JStr ''9:00''))
       = Inr \<lparr>isValid = True, errors = [], warnings = []\<rparr>"
proof -
  let ?e = "example_event(''startTime'' := JStr ''9:00'')"
  have f: "?e ''title'' = JStr ''Jazz Night''" "?e ''address'' = JStr ''1 Main St''"
    "?e ''venueName'' = JStr ''The Hall''" "?e ''cityName'' = JStr ''Toronto''"
    "?e ''startDate'' = JStr ''2025-08-01''" "?e ''endDate'' = JStr ''2025-08-01''"
    "?e ''startTime'' = JStr ''9:00''" "?e ''endTime'' = JStr ''22:00''"
    "?e ''ratePrice'' = JUndefined" "?e ''capacity'' = JUndefined" "?e ''countryCode'' = JUndefined"
    "?e ''dateDisplayOption'' = JUndefined" "?e ''privacy'' = JUndefined"
    "?e ''tiktokPixelCodes'' = JUndefined" "?e ''facebookPixelCodes'' = JUndefined"
    by (simp_all add: example_event_def)
  have "validateEvent example_runtime ?e = Inr \<lparr>isValid = True, errors = [], warnings = []\<rparr>"
    unfolding validateEvent_def f validateEvent_example_required sum.case
    by (simp add: validate_dates_example push_if_def)
  then show ?thesis by simp
qed

text \<open>
  C3, amended. For every record whose two dates are present and whose two times are
  non-empty strings (and whose text fields are strings or absent, so that the validator
  returns), the validator reports the start-time format error exactly when the start
  time does not match \<^verbatim>\<open>/^([0-1]?[0-9]|2[0-3]):[0-5][0-9]$/\<close>, and the end-time format error
  exactly when the end time does not; a record with a time that does not match is not
  valid. \<^verbatim>\<open>"25:00"\<close> does not match; \<^verbatim>\<open>"9:00"\<close> matches.
\<close>

theorem time_format_check:
  assumes "truthy (eventData ''startDate'')" and "truthy (eventData ''endDate'')"
      and "eventData ''startTime'' = JStr startTime" and "startTime \<noteq> []"
      and "eventData ''endTime'' = JStr endTime" and "endTime \<noteq> []"
      and "nullish_or_string (eventData ''title'')" and "nullish_or_string (eventData ''address'')"
      and "nullish_or_string (eventData ''venueName'')" and "nullish_or_string (eventData ''cityName'')"
  shows "\<exists>r. validateEvent rt eventData = Inr r
           \<and> (''Start time must be in HH:MM format (e.g., 19:30)'' \<in> set (errors r)
                \<longleftrightarrow> \<not> timeRegex_match startTime)
           \<and> (''End time must be in HH:MM format (e.g., 22:00)'' \<in> set (errors r)
                \<longleftrightarrow> \<not> timeRegex_match endTime)
           \<and> (isValid r \<longrightarrow> timeRegex_match startTime \<and> timeRegex_match endTime)
           \<and> \<not> timeRegex_match ''25:00'' \<and> timeRegex_match ''9:00''"
proof -
  obtain title where t1: "optional_trim ''title'' (eventData ''title'') = Inr title"
    using optional_trim_returns[OF assms(7)] by blast
  obtain address where t2: "optional_trim ''address'' (eventData ''address'') = Inr address"
    using optional_trim_returns[OF assms(8)] by blast
  obtain venueName where t3: "optional_trim ''venueName'' (eventData ''venueName'') = Inr venueName"
    using optional_trim_returns[OF assms(9)] by blast
  obtain cityName where t4: "optional_trim ''cityName'' (eventData ''cityName'') = Inr cityName"
    using optional_trim_returns[OF assms(10)] by blast
  define errs0 where "errs0 =
     push_if (\<not> truthy cityName) ''City name is required''
      (push_if (\<not> truthy venueName) ''Venue name is required''
        (push_if (\<not> truthy address) ''Address is required''
          (push_if (\<not> truthy (eventData ''endTime'')) ''End time is required''
            (push_if (\<not> truthy (eventData ''endDate'')) ''End date is required''
              (push_if (\<not> truthy (eventData ''startTime'')) ''Start time is required''
                (push_if (\<not> truthy (eventData ''startDate'')) ''Start date is required''
                  (push_if (\<not> truthy title) ''Title is required'' [])))))))"
  have n0: "''Start time must be in HH:MM format (e.g., 19:30)'' \<notin> set errs0"
           "''End time must be in HH:MM format (e.g., 22:00)'' \<notin> set errs0"
    by (simp_all add: errs0_def mem_push_if)
  from validate_dates_strings[OF assms(3) assms(5), of rt errs0 "[]"] n0
  obtain errs' warns' where d: "validate_dates rt eventData errs0 [] = Inr (errs', warns')"
    and s: "''Start time must be in HH:MM format (e.g., 19:30)'' \<in> set errs'
              \<longleftrightarrow> \<not> timeRegex_match startTime"
    and e: "''End time must be in HH:MM format (e.g., 22:00)'' \<in> set errs'
              \<longleftrightarrow> \<not> timeRegex_match endTime"
    by auto
  have four: "truthy (eventData ''startDate'') \<and> truthy (eventData ''startTime'')
                \<and> truthy (eventData ''endDate'') \<and> truthy (eventData ''endTime'')"
    using assms by simp
  have "\<exists>r. validateEvent rt eventData = Inr r
    \<and> (''Start time must be in HH:MM format (e.g., 19:30)'' \<in> set (errors r)
          \<longleftrightarrow> ''Start time must be in HH:MM format (e.g., 19:30)'' \<in> set errs')
    \<and> (''End time must be in HH:MM format (e.g., 22:00)'' \<in> set (errors r)
          \<longleftrightarrow> ''End time must be in HH:MM format (e.g., 22:00)'' \<in> set errs')
    \<and> (isValid r \<longleftrightarrow> errors r = [])"
    unfolding validateEvent_def t1 t2 t3 t4 sum.case Let_def if_P[OF four]
      d[unfolded errs0_def] prod.case
    by (simp add: mem_push_if)
  then obtain r where r: "validateEvent rt eventData = Inr r"
    and er: "''Start time must be in HH:MM format (e.g., 19:30)'' \<in> set (errors r)
          \<longleftrightarrow> ''Start time must be in HH:MM format (e.g., 19:30)'' \<in> set errs'"
       "''End time must be in HH:MM format (e.g., 22:00)'' \<in> set (errors r)
          \<longleftrightarrow> ''End time must be in HH:MM format (e.g., 22:00)'' \<in> set errs'"
    and v: "isValid r \<longleftrightarrow> errors r = []"
    by blast
  have rs: "''Start time must be in HH:MM format (e.g., 19:30)'' \<in> set (errors r)
              \<longleftrightarrow> \<not> timeRegex_match startTime"
    using er s by simp
  have re: "''End time must be in HH:MM format (e.g., 22:00)'' \<in> set (errors r)
              \<longleftrightarrow> \<not> timeRegex_match endTime"
    using er e by simp
  have vs: "isValid r \<longrightarrow> timeRegex_match startTime \<and> timeRegex_match endTime"
    using v rs re by auto
  have ex: "\<not> timeRegex_match ''25:00''" "timeRegex_match ''9:00''" by simp_all
  show ?thesis using r rs re vs ex by blast
qed

text \<open>
  A start time of \<^verbatim>\<open>"25:00"\<close>: the start-time format error is reported, the end-time one
  is not, and the record is invalid.
\<close>

theorem time_format_check_witness:
  "truthy ((example_event(''startTime'' := JStr ''25:00'')) ''startDate'')
   \<and> truthy ((example_event(''startTime'' := JStr ''25:00'')) ''endDate'')
   \<and> (example_event(''startTime'' := JStr ''25:00'')) ''startTime'' = JStr ''25:00''
   \<and> (example_event(''startTime'' := JStr ''25:00'')) ''endTime'' = JStr ''22:00''
   \<and> nullish_or_string ((example_event(''startTime'' := JStr ''25:00'')) ''title'')
   \<and> nullish_or_string ((example_event(''startTime'' := JStr ''25:00'')) ''address'')
   \<and> nullish_or_string ((example_event(''startTime'' := JStr ''25:00'')) ''venueName'')
   \<and> nullish_or_string ((example_event(''startTime'' := JStr ''25:00'')) ''cityName'')
   \<and> (\<exists>r. validateEvent example_runtime (example_event(''startTime'' := JStr ''25:00'')) = Inr r
          \<and> ''Start time must be in HH:MM format (e.g., 19:30)'' \<in> set (errors r)
          \<and> ''End time must be in HH:MM format (e.g., 22:00)'' \<notin> set (errors r)
          \<and> \<not> isValid r)"
proof -
  let ?e = "example_event(''startTime'' := JStr ''25:00'')"
  have h: "truthy (?e ''startDate'')" "truthy (?e ''endDate'')"
      "?e ''startTime'' = JStr ''25:00''" "''25:00'' \<noteq> []"
      "?e ''endTime'' = JStr ''22:00''" "''22:00'' \<noteq> []"
      "nullish_or_string (?e ''title'')" "nullish_or_string (?e ''address'')"
      "nullish_or_string (?e ''venueName'')" "nullish_or_string (?e ''cityName'')"
    by (simp_all add: example_event_def)
  have m: "\<not> timeRegex_match ''25:00''" "timeRegex_match ''22:00''" by simp_all
  from time_format_check[OF h, of example_runtime] m
  have c: "\<exists>r. validateEvent example_runtime ?e = Inr r
          \<and> ''Start time must be in HH:MM format (e.g., 19:30)'' \<in> set (errors r)
          \<and> ''End time must be in HH:MM format (e.g., 22:00)'' \<notin> set (errors r)
          \<and> \<not> isValid r"
    by blast
  show ?thesis
    by (intro conjI) (fact h c)+
qed

text \<open>
  C5. The validator's privacy check at the mixed-case value \<^verbatim>\<open>"Private"\<close>: the check
  compares with six literal spellings only, so the record is reported invalid with the
  privacy error, whose text says that the comparison is case insensitive. The transformer
  does lower-case the same value, to \<^verbatim>\<open>"unlisted"\<close>.
\<close>

theorem privacy_mixed_case_rejected:
  "validateEvent example_runtime (example_event(''privacy'' := JStr ''Private''))
     = Inr \<lparr>isValid = False,
            errors = [''Privacy must be PUBLIC, PRIVATE, or UNLISTED (case insensitive)''],
            warnings = []\<rparr>
   \<and> privacy_field (JStr ''Private'') = Inr [(''privacy'', JValue (JStr ''unlisted''))]"
proof -
  let ?e = "example_event(''privacy'' := JStr ''Private'')"
  have f: "?e ''title'' = JStr ''Jazz Night''" "?e ''address'' = JStr ''1 Main St''"
    "?e ''venueName'' = JStr ''The Hall''" "?e ''cityName'' = JStr ''Toronto''"
    "?e ''startDate'' = JStr ''2025-08-01''" "?e ''endDate'' = JStr ''2025-08-01''"
    "?e ''startTime'' = JStr ''19:30''" "?e ''endTime'' = JStr ''22:00''"
    "?e ''ratePrice'' = JUndefined" "?e ''capacity'' = JUndefined" "?e ''countryCode'' = JUndefined"
    "?e ''dateDisplayOption'' = JUndefined" "?e ''privacy'' = JStr ''Private''"
    "?e ''tiktokPixelCodes'' = JUndefined" "?e ''facebookPixelCodes'' = JUndefined"
    by (simp_all add: example_event_def)
  have "validateEvent example_runtime ?e = Inr \<lparr>isValid = False,
            errors = [''Privacy must be PUBLIC, PRIVATE, or UNLISTED (case insensitive)''],
            warnings = []\<rparr>"
    unfolding validateEvent_def f validateEvent_example_required sum.case
    by (simp add: validate_dates_example push_if_def)
  moreover have "privacy_field (JStr ''Private'') = Inr [(''privacy'', JValue (JStr ''unlisted''))]"
    by code_simp
  ultimately show ?thesis by simp
qed

text \<open>
  C8. The validator at \<open>capacity = 0\<close>: the guard \<^verbatim>\<open>eventData.capacity && \<dots>\<close> is false for
  the number zero, so no capacity error is reported although \<open>0 < 1\<close>.
\<close>

theorem capacity_zero_accepted:
  "js_less example_runtime (JNum 0) 1
   \<and> validateEvent example_runtime (example_event(''capacity'' := JNum 0))
       = Inr \<lparr>isValid = True, errors = [], warnings = []\<rparr>"
proof -
  let ?e = "example_event(''capacity'' := JNum 0)"
  have f: "?e ''title'' = JStr ''Jazz Night''" "?e ''address'' = JStr ''1 Main St''"
    "?e ''venueName'' = JStr ''The Hall''" "?e ''cityName'' = JStr ''Toronto''"
    "?e ''startDate'' = JStr ''2025-08-01''" "?e ''endDate'' = JStr ''2025-08-01''"
    "?e ''startTime'' = JStr ''19:30''" "?e ''endTime'' = JStr ''22:00''"
    "?e ''ratePrice'' = JUndefined" "?e ''capacity'' = JNum 0" "?e ''countryCode'' = JUndefined"
    "?e ''dateDisplayOption'' = JUndefined" "?e ''privacy'' = JUndefined"
    "?e ''tiktokPixelCodes'' = JUndefined" "?e ''facebookPixelCodes'' = JUndefined"
    by (simp_all add: example_event_def)
  have "validateEvent example_runtime ?e = Inr \<lparr>isValid = True, errors = [], warnings = []\<rparr>"
    unfolding validateEvent_def f validateEvent_example_required sum.case
    by (simp add: validate_dates_example push_if_def)
  moreover have "js_less example_runtime (JNum 0) 1" by (simp add: js_less_def)
  ultimately show ?thesis by simp
qed

subsection \<open>The transformer\<close>

lemma privacy_field_keys:
  assumes "privacy_field v = Inr l" "k \<noteq> ''privacy''"
  shows "map_of l k = None"
  using assms by (cases v) (auto split: if_splits)

lemma comma_list_field_keys:
  assumes "comma_list_field key v = Inr l" "k \<noteq> key"
  shows "map_of l k = None"
  using assms by (cases v) (auto split: if_splits)

lemma in_sequence_Cons:
  "in_sequence (p # ps) = Inr xs \<longleftrightarrow> (\<exists>a b. p = Inr a \<and> in_sequence ps = Inr b \<and> xs = a @ b)"
  by (cases p; cases "in_sequence ps") auto

lemma optional_keys_flags:
  assumes "optional_keys rt airtableData = Inr optional"
  shows "map_of optional ''virtual''
           = (if airtableData ''virtual'' = JBool True then Some (JValue (JBool True)) else None)"
    and "map_of optional ''allowWaitlist''
           = (if airtableData ''allowWaitlist'' = JBool True then Some (JValue (JBool True)) else None)"
    and "map_of optional ''socialButtons''
           = (if airtableData ''socialButtons'' = JBool True then Some (JValue (JBool True)) else None)"
    and "map_of optional ''hiddenDate''
           = (if airtableData ''hiddenDate'' = JBool True then Some (JValue (JBool True)) else None)"
    and "map_of optional ''timedEntry''
           = (if airtableData ''timedEntry'' = JBool True then Some (JValue (JBool True)) else None)"
proof -
  from assms obtain p c1 c2 c3 where
    p: "privacy_field (airtableData ''privacy'') = Inr p"
    and c1: "comma_list_field ''availableCountries'' (airtableData ''availableCountries'') = Inr c1"
    and c2: "comma_list_field ''tiktokPixelCodes'' (airtableData ''tiktokPixelCodes'') = Inr c2"
    and c3: "comma_list_field ''facebookPixelCodes'' (airtableData ''facebookPixelCodes'') = Inr c3"
    and opt: "optional = p
           @ (if airtableData ''virtual'' = JBool True then [(''virtual'', JValue (JBool True))] else [])
           @ (if truthy (airtableData ''venueName'') then [(''venueName'', JValue (airtableData ''venueName''))] else [])
           @ (if truthy (airtableData ''region'') then [(''region'', JValue (airtableData ''region''))] else [])
           @ (if airtableData ''allowWaitlist'' = JBool True then [(''allowWaitlist'', JValue (JBool True))] else [])
           @ (if airtableData ''socialButtons'' = JBool True then [(''socialButtons'', JValue (JBool True))] else [])
           @ (if airtableData ''hiddenDate'' = JBool True then [(''hiddenDate'', JValue (JBool True))] else [])
           @ (if airtableData ''timedEntry'' = JBool True then [(''timedEntry'', JValue (JBool True))] else [])
           @ (if truthy (airtableData ''maxQuantity'')
              then [(''maxQuantity'', JNumber (parseInt rt (ToString rt (airtableData ''maxQuantity''))))] else [])
           @ (if truthy (airtableData ''transactionCurrency'')
              then [(''transactionCurrency'', JValue (airtableData ''transactionCurrency''))] else [])
           @ c1 @ c2 @ c3
           @ (if truthy (airtableData ''googleAnalytics4Id'')
              then [(''googleAnalytics4Id'', JValue (airtableData ''googleAnalytics4Id''))] else [])"
    unfolding optional_keys_def in_sequence_Cons optional_field_def
    by (auto simp del: append_assoc)
  note none = privacy_field_keys[OF p] comma_list_field_keys[OF c1]
    comma_list_field_keys[OF c2] comma_list_field_keys[OF c3]
  show "map_of optional ''virtual''
           = (if airtableData ''virtual'' = JBool True then Some (JValue (JBool True)) else None)"
    unfolding opt by (simp add: none map_add_def)
  show "map_of optional ''allowWaitlist''
           = (if airtableData ''allowWaitlist'' = JBool True then Some (JValue (JBool True)) else None)"
    unfolding opt by (simp add: none map_add_def)
  show "map_of optional ''socialButtons''
           = (if airtableData ''socialButtons'' = JBool True then Some (JValue (JBool True)) else None)"
    unfolding opt by (simp add: none map_add_def)
  show "map_of optional ''hiddenDate''
           = (if airtableData ''hiddenDate'' = JBool True then Some (JValue (JBool True)) else None)"
    unfolding opt by (simp add: none map_add_def)
  show "map_of optional ''timedEntry''
           = (if airtableData ''timedEntry'' = JBool True then Some (JValue (JBool True)) else None)"
    unfolding opt by (simp add: none map_add_def)
qed

text \<open>
  C4, as stated, fails: \<^verbatim>\<open>"25:00"\<close> does not satisfy the format check, and
  \<^verbatim>\<open>combineDateAndTime\<close> returns a combined instant string for it.
\<close>

theorem combineDateAndTime_counterexample:
  "\<not> timeRegex_match ''25:00''
   \<and> combineDateAndTime example_runtime (JStr ''2025-08-01'') (JStr ''25:00'')
       = Inr ''2025-08-01T25:00:00''"
  by (simp add: combineDateAndTime_def split_T_0_def padStart_5_0_def)

text \<open>
  C4, amended. \<^verbatim>\<open>combineDateAndTime\<close> makes no format check. For every string date and
  every string time it returns the date up to its first \<^verbatim>\<open>T\<close>, then \<^verbatim>\<open>T\<close>, then the time
  padded on the left with \<^verbatim>\<open>0\<close> to five characters, then \<^verbatim>\<open>:00\<close>. It fails exactly when
  the time is not a string, or the date is not a string and is an invalid date; the
  format of the time plays no part.
\<close>

theorem combineDateAndTime_never_checks_format:
  "combineDateAndTime rt (JStr dateString) (JStr timeString)
     = Inr (split_T_0 dateString @ ''T'' @ padStart_5_0 timeString @ '':00'')
   \<and> ((\<exists>e. combineDateAndTime rt date time = Inl e)
        \<longleftrightarrow> ((\<forall>s. date \<noteq> JStr s) \<and> Date_new rt date = None) \<or> (\<forall>s. time \<noteq> JStr s))"
proof -
  have a: "combineDateAndTime rt (JStr dateString) (JStr timeString)
     = Inr (split_T_0 dateString @ ''T'' @ padStart_5_0 timeString @ '':00'')"
    by (simp add: combineDateAndTime_def)
  have b: "(\<exists>e. combineDateAndTime rt date time = Inl e)
        \<longleftrightarrow> ((\<forall>s. date \<noteq> JStr s) \<and> Date_new rt date = None) \<or> (\<forall>s. time \<noteq> JStr s)"
    by (cases date; cases time; cases "Date_new rt date")
       (simp_all add: combineDateAndTime_def)
  show ?thesis using a b by blast
qed

lemma formatDescription_returns:
  "(\<exists>h. formatDescription v = Inr h) \<longleftrightarrow> falsy_or_string v"
  by (cases v) auto

lemma privacy_field_returns:
  "(\<exists>l. privacy_field v = Inr l) \<longleftrightarrow> falsy_or_string v"
  by (cases v) auto

lemma comma_list_field_returns:
  "(\<exists>l. comma_list_field key v = Inr l) \<longleftrightarrow> falsy_or_string v"
  by (cases v) auto

lemma combineDateAndTime_returns:
  "(\<exists>r. combineDateAndTime rt date time = Inr r) \<longleftrightarrow> combinable rt date time"
  by (cases date; cases time; cases "Date_new rt date") (simp_all add: combineDateAndTime_def)

lemma timeSlots_entries_returns:
  "(\<exists>ts. timeSlots_entries rt airtableData = Inr ts) \<longleftrightarrow>
     (truthy (airtableData ''startDate'') \<and> truthy (airtableData ''startTime'')
           \<and> truthy (airtableData ''endDate'') \<and> truthy (airtableData ''endTime'')
          \<longrightarrow> combinable rt (airtableData ''startDate'') (airtableData ''startTime'')
            \<and> combinable rt (airtableData ''endDate'') (airtableData ''endTime''))"
  unfolding timeSlots_entries_def combineDateAndTime_returns[symmetric]
  by (auto split: sum.splits)

lemma in_sequence_returns:
  "(\<exists>xs. in_sequence (p # ps) = Inr xs) \<longleftrightarrow> (\<exists>a. p = Inr a) \<and> (\<exists>b. in_sequence ps = Inr b)"
  by (cases p; cases "in_sequence ps") auto

lemma optional_keys_returns:
  "(\<exists>opt. optional_keys rt airtableData = Inr opt) \<longleftrightarrow>
     falsy_or_string (airtableData ''privacy'')
      \<and> falsy_or_string (airtableData ''availableCountries'')
      \<and> falsy_or_string (airtableData ''tiktokPixelCodes'')
      \<and> falsy_or_string (airtableData ''facebookPixelCodes'')"
  unfolding optional_keys_def in_sequence_returns optional_field_def
  by (simp add: privacy_field_returns comma_list_field_returns)

lemma transform_returns:
  "(\<exists>input. transformToEventCreateInput rt airtableData = Inr input)
     \<longleftrightarrow> transformable rt airtableData"
proof -
  have "(\<exists>input. transformToEventCreateInput rt airtableData = Inr input) \<longleftrightarrow>
          (\<exists>h. formatDescription (airtableData ''description'') = Inr h)
        \<and> (\<exists>ts. timeSlots_entries rt airtableData = Inr ts)
        \<and> (\<exists>opt. optional_keys rt airtableData = Inr opt)"
    unfolding transformToEventCreateInput_def
    by (cases "formatDescription (airtableData ''description'')";
        cases "timeSlots_entries rt airtableData"; cases "optional_keys rt airtableData") simp_all
  then show ?thesis
    unfolding transformable_def formatDescription_returns timeSlots_entries_returns
      optional_keys_returns by simp
qed

lemma transform_flags:
  assumes "transformToEventCreateInput rt airtableData = Inr input"
  shows "js_get input ''publish'' = Some (JValue (JBool (airtableData ''publish'' = JBool True)))
       \<and> (\<exists>event_object. js_get input ''event'' = Some event_object
            \<and> js_get event_object ''virtual''
                = (if airtableData ''virtual'' = JBool True then Some (JValue (JBool True)) else None)
            \<and> js_get event_object ''allowWaitlist''
                = (if airtableData ''allowWaitlist'' = JBool True then Some (JValue (JBool True)) else None)
            \<and> js_get event_object ''socialButtons''
                = (if airtableData ''socialButtons'' = JBool True then Some (JValue (JBool True)) else None)
            \<and> js_get event_object ''hiddenDate''
                = (if airtableData ''hiddenDate'' = JBool True then Some (JValue (JBool True)) else None)
            \<and> js_get event_object ''timedEntry''
                = (if airtableData ''timedEntry'' = JBool True then Some (JValue (JBool True)) else None))"
proof -
  from assms obtain descriptionHtml timeSlots optional where
    o: "optional_keys rt airtableData = Inr optional"
    and i: "input = JObject
            [(''clientMutationId'',
                JValue (JStr (generateClientMutationId rt ''event-create''
                                (airtableData ''airtableId'')))),
             (''publish'', JValue (JBool (airtableData ''publish'' = JBool True))),
             (''event'', JObject
                ([(''title'', JValue (airtableData ''title'')),
                  (''descriptionHtml'', JValue (JStr descriptionHtml)),
                  (''address'', JValue (airtableData ''address'')),
                  (''latitude'',
                     JNumber (if truthy (airtableData ''latitude'')
                              then parseFloat rt (ToString rt (airtableData ''latitude''))
                              else Finite (43653226 / 1000000))),
                  (''longitude'',
                     JNumber (if truthy (airtableData ''longitude'')
                              then parseFloat rt (ToString rt (airtableData ''longitude''))
                              else Finite (- (793831843 / 10000000)))),
                  (''category'', JObject
                     [(''id'', JValue (if truthy (airtableData ''categoryId'')
                                       then airtableData ''categoryId''
                                       else JStr ''52cc8f6154c5317943000003''))]),
                  (''timeSlots'', JArray timeSlots),
                  (''rates'', JArray (rates_entries rt airtableData))]
                 @ optional))]"
    by (auto simp: transformToEventCreateInput_def split: sum.splits)
  note fl = optional_keys_flags[OF o]
  have p: "js_get input ''publish'' = Some (JValue (JBool (airtableData ''publish'' = JBool True)))"
    unfolding i by simp
  have e: "\<exists>event_object. js_get input ''event'' = Some event_object
            \<and> js_get event_object ''virtual''
                = (if airtableData ''virtual'' = JBool True then Some (JValue (JBool True)) else None)
            \<and> js_get event_object ''allowWaitlist''
                = (if airtableData ''allowWaitlist'' = JBool True then Some (JValue (JBool True)) else None)
            \<and> js_get event_object ''socialButtons''
                = (if airtableData ''socialButtons'' = JBool True then Some (JValue (JBool True)) else None)
            \<and> js_get event_object ''hiddenDate''
                = (if airtableData ''hiddenDate'' = JBool True then Some (JValue (JBool True)) else None)
            \<and> js_get event_object ''timedEntry''
                = (if airtableData ''timedEntry'' = JBool True then Some (JValue (JBool True)) else None)"
    unfolding i by (simp add: fl map_add_def)
  show ?thesis using p e by blast
qed

text \<open>
  C10. Boolean options are strict in the transformer. For every source record on which
  \<^verbatim>\<open>transformToEventCreateInput\<close> does not throw (the records that are \<open>transformable\<close>: a
  condition on the description, the dates and times, the privacy and the three code
  lists, in which the boolean option fields take no part), the function returns a request
  whose \<^verbatim>\<open>publish\<close> key is the boolean \<^verbatim>\<open>airtableData.publish === true\<close>, and in whose
  \<^verbatim>\<open>event\<close> object each of the keys \<^verbatim>\<open>virtual\<close>, \<^verbatim>\<open>allowWaitlist\<close>, \<^verbatim>\<open>socialButtons\<close>,
  \<^verbatim>\<open>hiddenDate\<close> and \<^verbatim>\<open>timedEntry\<close> is present, with the value \<^verbatim>\<open>true\<close>, exactly when the
  source field is the boolean \<^verbatim>\<open>true\<close>; for any other source value (a truthy string, a
  number, an absent field) \<^verbatim>\<open>publish\<close> is \<^verbatim>\<open>false\<close> and the key is absent. On every other
  record the function throws and there is no request. Whether a record is transformable
  does not change when its six boolean option fields are given any values whatever.
\<close>

theorem boolean_flags_are_strict:
  "(transformable rt airtableData \<longrightarrow>
      (\<exists>input. transformToEventCreateInput rt airtableData = Inr input
         \<and> js_get input ''publish'' = Some (JValue (JBool (airtableData ''publish'' = JBool True)))
         \<and> (\<exists>event_object. js_get input ''event'' = Some event_object
              \<and> js_get event_object ''virtual''
                  = (if airtableData ''virtual'' = JBool True then Some (JValue (JBool True)) else None)
              \<and> js_get event_object ''allowWaitlist''
                  = (if airtableData ''allowWaitlist'' = JBool True then Some (JValue (JBool True)) else None)
              \<and> js_get event_object ''socialButtons''
                  = (if airtableData ''socialButtons'' = JBool True then Some (JValue (JBool True)) else None)
              \<and> js_get event_object ''hiddenDate''
                  = (if airtableData ''hiddenDate'' = JBool True then Some (JValue (JBool True)) else None)
              \<and> js_get event_object ''timedEntry''
                  = (if airtableData ''timedEntry'' = JBool True then Some (JValue (JBool True)) else None))))
   \<and> (\<not> transformable rt airtableData \<longrightarrow>
        (\<exists>e. transformToEventCreateInput rt airtableData = Inl e))
   \<and> transformable rt
        (airtableData(''publish'' := publish, ''virtual'' := virtual,
                      ''allowWaitlist'' := allowWaitlist, ''socialButtons'' := socialButtons,
                      ''hiddenDate'' := hiddenDate, ''timedEntry'' := timedEntry))
       = transformable rt airtableData"
proof -
  have a: "\<exists>input. transformToEventCreateInput rt airtableData = Inr input
         \<and> js_get input ''publish'' = Some (JValue (JBool (airtableData ''publish'' = JBool True)))
         \<and> (\<exists>event_object. js_get input ''event'' = Some event_object
              \<and> js_get event_object ''virtual''
                  = (if airtableData ''virtual'' = JBool True then Some (JValue (JBool True)) else None)
              \<and> js_get event_object ''allowWaitlist''
                  = (if airtableData ''allowWaitlist'' = JBool True then Some (JValue (JBool True)) else None)
              \<and> js_get event_object ''socialButtons''
                  = (if airtableData ''socialButtons'' = JBool True then Some (JValue (JBool True)) else None)
              \<and> js_get event_object ''hiddenDate''
                  = (if airtableData ''hiddenDate'' = JBool True then Some (JValue (JBool True)) else None)
              \<and> js_get event_object ''timedEntry''
                  = (if airtableData ''timedEntry'' = JBool True then Some (JValue (JBool True)) else None))"
    if "transformable rt airtableData"
  proof -
    from that obtain input where i: "transformToEventCreateInput rt airtableData = Inr input"
      unfolding transform_returns[symmetric] by blast
    from transform_flags[OF i] i show ?thesis by blast
  qed
  have b: "\<exists>e. transformToEventCreateInput rt airtableData = Inl e"
    if "\<not> transformable rt airtableData"
    using that unfolding transform_returns[symmetric]
    by (cases "transformToEventCreateInput rt airtableData") auto
  have c: "transformable rt
        (airtableData(''publish'' := publish, ''virtual'' := virtual,
                      ''allowWaitlist'' := allowWaitlist, ''socialButtons'' := socialButtons,
                      ''hiddenDate'' := hiddenDate, ''timedEntry'' := timedEntry))
       = transformable rt airtableData"
    by (simp add: transformable_def)
  show ?thesis using a b c by blast
qed

text \<open>
  A record with \<^verbatim>\<open>publish: "true"\<close>, \<^verbatim>\<open>virtual: true\<close>, \<^verbatim>\<open>hiddenDate: "yes"\<close> and
  \<^verbatim>\<open>timedEntry: 1\<close> is transformable: \<^verbatim>\<open>publish\<close> is \<^verbatim>\<open>false\<close>, \<^verbatim>\<open>virtual\<close> is the only flag
  present. The same record with the number 5 as its privacy is not: the transformer
  throws.
\<close>

theorem boolean_flags_are_strict_witness:
  "transformable example_runtime
     (example_event(''publish'' := JStr ''true'', ''virtual'' := JBool True,
                    ''hiddenDate'' := JStr ''yes'', ''timedEntry'' := JNum 1))
   \<and> (\<exists>input. transformToEventCreateInput example_runtime
         (example_event(''publish'' := JStr ''true'', ''virtual'' := JBool True,
                        ''hiddenDate'' := JStr ''yes'', ''timedEntry'' := JNum 1)) = Inr input
       \<and> js_get input ''publish'' = Some (JValue (JBool False))
       \<and> (\<exists>event_object. js_get input ''event'' = Some event_object
            \<and> js_get event_object ''virtual'' = Some (JValue (JBool True))
            \<and> js_get event_object ''allowWaitlist'' = None
            \<and> js_get event_object ''socialButtons'' = None
            \<and> js_get event_object ''hiddenDate'' = None
            \<and> js_get event_object ''timedEntry'' = None))
   \<and> \<not> transformable example_runtime
         (example_event(''publish'' := JStr ''true'', ''virtual'' := JBool True,
                        ''hiddenDate'' := JStr ''yes'', ''timedEntry'' := JNum 1,
                        ''privacy'' := JNum 5))
   \<and> (\<exists>e. transformToEventCreateInput example_runtime
         (example_event(''publish'' := JStr ''true'', ''virtual'' := JBool True,
                        ''hiddenDate'' := JStr ''yes'', ''timedEntry'' := JNum 1,
                        ''privacy'' := JNum 5)) = Inl e)"
proof -
  let ?d = "example_event(''publish'' := JStr ''true'', ''virtual'' := JBool True,
                      ''hiddenDate'' := JStr ''yes'', ''timedEntry'' := JNum 1)"
  let ?d' = "example_event(''publish'' := JStr ''true'', ''virtual'' := JBool True,
                      ''hiddenDate'' := JStr ''yes'', ''timedEntry'' := JNum 1,
                      ''privacy'' := JNum 5)"
  have t: "transformable example_runtime ?d"
    by (simp add: transformable_def example_event_def)
  have t': "\<not> transformable example_runtime ?d'"
    by (simp add: transformable_def example_event_def)
  have v: "?d ''publish'' \<noteq> JBool True" "?d ''virtual'' = JBool True"
    "?d ''allowWaitlist'' \<noteq> JBool True" "?d ''socialButtons'' \<noteq> JBool True"
    "?d ''hiddenDate'' \<noteq> JBool True" "?d ''timedEntry'' \<noteq> JBool True"
    by (simp_all add: example_event_def)
  from boolean_flags_are_strict[of example_runtime ?d] t v
  have a: "\<exists>input. transformToEventCreateInput example_runtime ?d = Inr input
       \<and> js_get input ''publish'' = Some (JValue (JBool False))
       \<and> (\<exists>event_object. js_get input ''event'' = Some event_object
            \<and> js_get event_object ''virtual'' = Some (JValue (JBool True))
            \<and> js_get event_object ''allowWaitlist'' = None
            \<and> js_get event_object ''socialButtons'' = None
            \<and> js_get event_object ''hiddenDate'' = None
            \<and> js_get event_object ''timedEntry'' = None)"
    by (simp del: fun_upd_apply)
  from boolean_flags_are_strict[of example_runtime ?d'] t'
  have b: "\<exists>e. transformToEventCreateInput example_runtime ?d' = Inl e"
    by blast
  show ?thesis
    by (intro conjI) (fact t a t' b)+
qed

end
